theory Spec2Isabelle
  imports Complex_Main
begin

section \<open>JavaScript values and the platform\<close>

text \<open>
  The GateHub client (\<^verbatim>\<open>packages/wallet/backend/src/gatehub/client.ts\<close>) is a TypeScript
  class whose every outward call goes through the private method \<^verbatim>\<open>request\<close>. The
  embedding below follows the class method by method. What the class takes from outside
  is kept as a parameter:
  \<^item> the HTTP library, the clock, the HMAC primitive and the parts of the JavaScript
    runtime that are not worth spelling out are the fields of a \<open>platform\<close> record;
  \<^item> the constants of \<^verbatim>\<open>@/gatehub/consts\<close>, whose declarations are not part of the
    sources at hand, are the fields of a \<open>gatehub_consts\<close> record.
  Strings are byte strings. A JavaScript number is \<open>NaN\<close>, an infinity or a finite value;
  every finite double is a rational number, the only arithmetic done on a number here is
  printing an integer.
\<close>

datatype number = NaN | PosInf | NegInf | Fin rat

text \<open>
  A value met at run time: the data of a provider response (parsed JSON), a request body
  before \<^verbatim>\<open>JSON.stringify\<close>, or, as \<open>JNative name\<close>, the built-in object that a property
  lookup reaches through the prototype chain under the property name \<open>name\<close>
  (\<^verbatim>\<open>({})['toString']\<close> is the function \<^verbatim>\<open>Object.prototype.toString\<close>).
  The fields of an object are its own properties, in order.
\<close>

datatype js_value =
    JUndefined
  | JNull
  | JBool bool
  | JNum number
  | JStr string
  | JArr "js_value list"
  | JObj "(string \<times> js_value) list"
  | JNative string

datatype native_error = TypeError | SyntaxError | RangeError

text \<open>
  What a method of the class can throw: an error of the runtime, the \<^verbatim>\<open>AxiosError\<close> of
  the HTTP library (with its message), the plain \<^verbatim>\<open>Error\<close> of \<^verbatim>\<open>getCardDetails\<close>, the
  \<^verbatim>\<open>BadRequest\<close> of \<^verbatim>\<open>getIframeUrl\<close>, or anything else the HTTP library lets through.
\<close>

datatype exn =
    Native native_error
  | AxiosError string
  | Error string
  | BadRequest string
  | Other string

type_synonym HTTP_METHODS = string

record axios_config =
  http_method :: HTTP_METHODS
  url :: string
  data :: "string option"
  headers :: "(string \<times> string) list"

text \<open>
  The platform. \<open>axios\<close> performs one HTTP call in a world \<open>'w\<close> and resolves with the
  response data or rejects; \<open>Date_now\<close> reads the clock (milliseconds);
  \<open>createHmac_sha256_hex key msg\<close> is
  \<^verbatim>\<open>createHmac('sha256', key).update(msg).digest('hex')\<close>; \<open>JSON_parse_ok s\<close> says that
  \<^verbatim>\<open>JSON.parse(s)\<close> returns rather than throws; \<open>ToNumber\<close> is the coercion of unary
  \<^verbatim>\<open>+\<close>; \<open>ToString_other\<close> is string conversion of a value that is not a string,
  a boolean, null or undefined; \<open>Number_toString_other\<close> prints a finite number that is
  not an integer below \<open>10^21\<close>; \<open>builtin_get\<close> is property lookup on a receiver that
  is not a plain object (a string, a number, a boolean, an array, a built-in);
  \<open>Object_prototype_invoke name arg\<close> is the outcome of calling, as a method of a plain
  object and with the one argument \<open>arg\<close>, the member of \<^verbatim>\<open>Object.prototype\<close> called
  \<open>name\<close>.
\<close>

record 'w platform =
  Date_now :: "'w \<Rightarrow> nat \<times> 'w"
  axios :: "axios_config \<Rightarrow> 'w \<Rightarrow> (exn + js_value) \<times> 'w"
  createHmac_sha256_hex :: "string \<Rightarrow> string \<Rightarrow> string"
  JSON_parse_ok :: "string \<Rightarrow> bool"
  ToNumber :: "js_value \<Rightarrow> number"
  ToString_other :: "js_value \<Rightarrow> string"
  Number_toString_other :: "rat \<Rightarrow> string"
  builtin_get :: "js_value \<Rightarrow> string \<Rightarrow> js_value"
  Object_prototype_invoke :: "string \<Rightarrow> string \<Rightarrow> native_error + js_value"

text \<open>
  The state threaded through the methods: the world of the platform and the trace of the
  HTTP calls made so far, oldest first.
\<close>

record 'w io =
  world :: 'w
  calls :: "axios_config list"

subsection \<open>Runtime helpers\<close>

text \<open>\<^verbatim>\<open>Array.prototype.join\<close> on an array of strings.\<close>

fun join :: "string \<Rightarrow> string list \<Rightarrow> string" where
  "join sep [] = []"
| "join sep [x] = x"
| "join sep (x # y # ys) = x @ sep @ join sep (y # ys)"

text \<open>\<^verbatim>\<open>Number.prototype.toString\<close> on a non-negative integer: its decimal digits.\<close>

definition digit :: "nat \<Rightarrow> char" where
  "digit d = ''0123456789'' ! d"

function toString_nat :: "nat \<Rightarrow> string" where
  "toString_nat n = (if n < 10 then [digit n] else toString_nat (n div 10) @ [digit (n mod 10)])"
  by pat_completeness auto
termination
  by (relation "measure id") auto

declare toString_nat.simps [simp del]

text \<open>Truthiness (\<^verbatim>\<open>ToBoolean\<close>) of a value and of an optional string.\<close>

fun truthy :: "js_value \<Rightarrow> bool" where
  "truthy JUndefined = False"
| "truthy JNull = False"
| "truthy (JBool b) = b"
| "truthy (JNum n) = (n \<noteq> NaN \<and> n \<noteq> Fin 0)"
| "truthy (JStr s) = (s \<noteq> [])"
| "truthy (JArr xs) = True"
| "truthy (JObj fs) = True"
| "truthy (JNative n) = True"

definition truthy_str :: "string option \<Rightarrow> bool" where
  "truthy_str s = (case s of None \<Rightarrow> False | Some b \<Rightarrow> b \<noteq> [])"

section \<open>Configuration and the client object\<close>

record Env =
  NODE_ENV :: string
  GATEHUB_ACCESS_KEY :: string
  GATEHUB_SECRET_KEY :: string
  GATEHUB_CARD_APP_ID :: string

record ClientIds =
  onOffRamp :: string
  exchange :: string
  onboarding :: string

record gatehub_consts =
  DEFAULT_APP_SCOPE :: "string list"
  ONBOARDING_APP_SCOPE :: "string list"
  HOSTED_WALLET_TYPE :: string
  PAYMENT_TYPE_withdrawal :: string
  PAYMENT_TYPE_deposit :: string
  PRODUCTION_CLIENT_IDS :: ClientIds
  SANDBOX_CLIENT_IDS :: ClientIds
  SUPPORTED_ASSET_CODES :: "string list"

record GateHubClient =
  env :: Env
  clientIds :: ClientIds
  mainUrl :: string

definition isProduction :: "GateHubClient \<Rightarrow> bool" where
  "isProduction c = (NODE_ENV (env c) = ''production'')"

text \<open>
  The constructor: the fields start at their sandbox initialisers and are replaced when
  the environment is production.
\<close>

definition GateHubClient_new :: "gatehub_consts \<Rightarrow> Env \<Rightarrow> GateHubClient" where
  "GateHubClient_new K e =
     (let c = \<lparr>env = e, clientIds = SANDBOX_CLIENT_IDS K, mainUrl = ''sandbox.gatehub.net''\<rparr>
      in if isProduction c
         then c\<lparr>clientIds := PRODUCTION_CLIENT_IDS K, mainUrl := ''gatehub.net''\<rparr>
         else c)"

definition apiUrl :: "GateHubClient \<Rightarrow> string" where
  "apiUrl c = ''https://api.'' @ mainUrl c"

definition rampUrl :: "GateHubClient \<Rightarrow> string" where
  "rampUrl c = ''https://managed-ramp.'' @ mainUrl c"

definition exchangeUrl :: "GateHubClient \<Rightarrow> string" where
  "exchangeUrl c = ''https://exchange.'' @ mainUrl c"

definition onboardingUrl :: "GateHubClient \<Rightarrow> string" where
  "onboardingUrl c = ''https://onboarding.'' @ mainUrl c"

section \<open>The signed request transport\<close>

text \<open>
  \<^verbatim>\<open>getSignature\<close>: the array starts as \<^verbatim>\<open>[timestamp, method, url]\<close>, the body is
  pushed when it is truthy, and the array is joined with \<^verbatim>\<open>'|'\<close>.
\<close>

definition getSignature_args :: "string \<Rightarrow> HTTP_METHODS \<Rightarrow> string \<Rightarrow> string option \<Rightarrow> string list" where
  "getSignature_args timestamp m u body =
     (let args = [timestamp, m, u]
      in if truthy_str body then args @ [the body] else args)"

definition getSignature_toSign :: "string \<Rightarrow> HTTP_METHODS \<Rightarrow> string \<Rightarrow> string option \<Rightarrow> string" where
  "getSignature_toSign timestamp m u body = join ''|'' (getSignature_args timestamp m u body)"

definition getSignature ::
  "'w platform \<Rightarrow> GateHubClient \<Rightarrow> string \<Rightarrow> HTTP_METHODS \<Rightarrow> string \<Rightarrow> string option \<Rightarrow> string" where
  "getSignature P c timestamp m u body =
     createHmac_sha256_hex P (GATEHUB_SECRET_KEY (env c)) (getSignature_toSign timestamp m u body)"

text \<open>
  The options of a request. The uuid and the card application id are strings of the
  caller; the token of the card data hop is whatever the provider answered, so it is a
  run-time value, \<open>JUndefined\<close> when no token is given.
\<close>

record headersOptions =
  managedUserUuid :: "string option"
  token :: js_value
  cardAppId :: "string option"

definition noOptions :: headersOptions where
  "noOptions = \<lparr>managedUserUuid = None, token = JUndefined, cardAppId = None\<rparr>"

text \<open>String conversion inside a template literal.\<close>

definition template_str :: "'w platform \<Rightarrow> js_value \<Rightarrow> string" where
  "template_str P v =
     (case v of
        JStr s \<Rightarrow> s
      | JUndefined \<Rightarrow> ''undefined''
      | JNull \<Rightarrow> ''null''
      | JBool b \<Rightarrow> (if b then ''true'' else ''false'')
      | _ \<Rightarrow> ToString_other P v)"

text \<open>
  \<^verbatim>\<open>getRequestHeaders\<close>: four fixed entries, then one entry for each option that is
  truthy, in the order of the object literal.
\<close>

definition getRequestHeaders ::
  "'w platform \<Rightarrow> GateHubClient \<Rightarrow> string \<Rightarrow> HTTP_METHODS \<Rightarrow> string \<Rightarrow> string option
     \<Rightarrow> headersOptions option \<Rightarrow> (string \<times> string) list" where
  "getRequestHeaders P c timestamp m u body ho =
     [(''Content-Type'', ''application/json''),
      (''x-gatehub-app-id'', GATEHUB_ACCESS_KEY (env c)),
      (''x-gatehub-timestamp'', timestamp),
      (''x-gatehub-signature'', getSignature P c timestamp m u body)]
     @ (case ho of
          None \<Rightarrow> []
        | Some h \<Rightarrow>
            (if truthy_str (managedUserUuid h)
             then [(''x-gatehub-managed-user-uuid'', the (managedUserUuid h))] else [])
            @ (if truthy_str (cardAppId h)
               then [(''x-gatehub-card-app-id'', the (cardAppId h))] else [])
            @ (if truthy (token h)
               then [(''Authorization'', ''Bearer '' @ template_str P (token h))] else []))"

text \<open>
  \<^verbatim>\<open>request\<close>. The timestamp is read when the call is made; the headers are computed
  with \<^verbatim>\<open>body ?? ''\<close>; the body is sent as \<^verbatim>\<open>data\<close> when it is truthy. Both the success
  branch and, for an \<^verbatim>\<open>AxiosError\<close>, the failure branch evaluate
  \<^verbatim>\<open>body ? JSON.parse(body) : {}\<close> as an argument of the logger, which throws a
  \<^verbatim>\<open>SyntaxError\<close> when the body is not JSON; the logger itself is a sink. Otherwise the
  data is returned, or the error is thrown again.
\<close>

definition log_payload_throws :: "'w platform \<Rightarrow> string option \<Rightarrow> bool" where
  "log_payload_throws P body = (truthy_str body \<and> \<not> JSON_parse_ok P (the body))"

definition is_AxiosError :: "exn \<Rightarrow> bool" where
  "is_AxiosError e = (case e of AxiosError _ \<Rightarrow> True | _ \<Rightarrow> False)"

definition request_config ::
  "'w platform \<Rightarrow> GateHubClient \<Rightarrow> string \<Rightarrow> HTTP_METHODS \<Rightarrow> string \<Rightarrow> string option
     \<Rightarrow> headersOptions option \<Rightarrow> axios_config" where
  "request_config P c timestamp m u body ho =
     \<lparr>http_method = m, url = u,
      data = (if truthy_str body then body else None),
      headers = getRequestHeaders P c timestamp m u
                  (Some (case body of None \<Rightarrow> [] | Some b \<Rightarrow> b)) ho\<rparr>"

definition request ::
  "'w platform \<Rightarrow> GateHubClient \<Rightarrow> HTTP_METHODS \<Rightarrow> string \<Rightarrow> string option
     \<Rightarrow> headersOptions option \<Rightarrow> 'w io \<Rightarrow> (exn + js_value) \<times> 'w io" where
  "request P c m u body ho st =
     (let (now, w1) = Date_now P (world st);
          timestamp = toString_nat now;
          cfg = request_config P c timestamp m u body ho;
          (res, w2) = axios P cfg w1;
          st' = \<lparr>world = w2, calls = calls st @ [cfg]\<rparr>
      in case res of
           Inr d \<Rightarrow>
             if log_payload_throws P body then (Inl (Native SyntaxError), st')
             else (Inr d, st')
         | Inl e \<Rightarrow>
             if is_AxiosError e \<and> log_payload_throws P body then (Inl (Native SyntaxError), st')
             else (Inl e, st'))"

section \<open>Objects, property lookup and \<^verbatim>\<open>JSON.stringify\<close>\<close>

text \<open>
  The property names that every plain object inherits from \<^verbatim>\<open>Object.prototype\<close>
  (ECMAScript, with the legacy accessors of its Annex B, as Node.js has them). Each names
  a function or, for \<^verbatim>\<open>__proto__\<close>, the prototype object itself: all are truthy and
  none is a string.
\<close>

definition Object_prototype_keys :: "string list" where
  "Object_prototype_keys =
     [''__defineGetter__'', ''__defineSetter__'', ''__lookupGetter__'', ''__lookupSetter__'',
      ''__proto__'', ''constructor'', ''hasOwnProperty'', ''isPrototypeOf'',
      ''propertyIsEnumerable'', ''toLocaleString'', ''toString'', ''valueOf'']"

text \<open>
  \<^verbatim>\<open>v[k]\<close> and \<^verbatim>\<open>v.k\<close>: a \<^verbatim>\<open>TypeError\<close> on \<^verbatim>\<open>undefined\<close> and \<^verbatim>\<open>null\<close>; on a plain
  object the own property, else the inherited member, else \<^verbatim>\<open>undefined\<close>; on any other
  receiver what the platform says.
\<close>

definition js_get :: "'w platform \<Rightarrow> js_value \<Rightarrow> string \<Rightarrow> exn + js_value" where
  "js_get P v k =
     (case v of
        JUndefined \<Rightarrow> Inl (Native TypeError)
      | JNull \<Rightarrow> Inl (Native TypeError)
      | JObj fs \<Rightarrow>
          (case map_of fs k of
             Some x \<Rightarrow> Inr x
           | None \<Rightarrow> if k \<in> set Object_prototype_keys then Inr (JNative k) else Inr JUndefined)
      | _ \<Rightarrow> Inr (builtin_get P v k))"

definition typeof_string :: "js_value \<Rightarrow> bool" where
  "typeof_string v = (case v of JStr _ \<Rightarrow> True | _ \<Rightarrow> False)"

text \<open>
  \<^verbatim>\<open>JSON.stringify\<close> with one argument, on values without \<^verbatim>\<open>toJSON\<close> methods and
  objects without integer keys (the request bodies of this client). \<open>None\<close> is the
  result \<^verbatim>\<open>undefined\<close>.
\<close>

definition hex_digit :: "nat \<Rightarrow> char" where
  "hex_digit d = ''0123456789abcdef'' ! d"

definition JSON_escape :: "char \<Rightarrow> string" where
  "JSON_escape ch =
     (let n = (of_char ch :: nat) in
      if n = 34 then [CHR 0x5C, CHR 0x22]
      else if n = 92 then [CHR 0x5C, CHR 0x5C]
      else if n = 8 then [CHR 0x5C, CHR ''b'']
      else if n = 9 then [CHR 0x5C, CHR ''t'']
      else if n = 10 then [CHR 0x5C, CHR ''n'']
      else if n = 12 then [CHR 0x5C, CHR ''f'']
      else if n = 13 then [CHR 0x5C, CHR ''r'']
      else if n < 32 then [CHR 0x5C, CHR ''u'', CHR ''0'', CHR ''0'', hex_digit (n div 16), hex_digit (n mod 16)]
      else [ch])"

definition JSON_quote :: "string \<Rightarrow> string" where
  "JSON_quote s = [CHR 0x22] @ concat (map JSON_escape s) @ [CHR 0x22]"

definition Number_toString :: "'w platform \<Rightarrow> number \<Rightarrow> string" where
  "Number_toString P n =
     (case n of
        NaN \<Rightarrow> ''NaN''
      | PosInf \<Rightarrow> ''Infinity''
      | NegInf \<Rightarrow> ''-Infinity''
      | Fin q \<Rightarrow>
          (let i = \<lfloor>q\<rfloor> in
           if of_int i = q \<and> \<bar>i\<bar> < 10 ^ 21
           then (if i < 0 then ''-'' else []) @ toString_nat (nat \<bar>i\<bar>)
           else Number_toString_other P q))"

fun JSON_stringify :: "'w platform \<Rightarrow> js_value \<Rightarrow> string option"
  and stringify_elements :: "'w platform \<Rightarrow> js_value list \<Rightarrow> string list"
  and stringify_properties :: "'w platform \<Rightarrow> (string \<times> js_value) list \<Rightarrow> string list" where
  "JSON_stringify P JUndefined = None"
| "JSON_stringify P (JNative n) = None"
| "JSON_stringify P JNull = Some ''null''"
| "JSON_stringify P (JBool b) = Some (if b then ''true'' else ''false'')"
| "JSON_stringify P (JNum n) =
     Some (case n of Fin q \<Rightarrow> Number_toString P n | _ \<Rightarrow> ''null'')"
| "JSON_stringify P (JStr s) = Some (JSON_quote s)"
| "JSON_stringify P (JArr xs) = Some (''['' @ join '','' (stringify_elements P xs) @ '']'')"
| "JSON_stringify P (JObj fs) = Some (''{'' @ join '','' (stringify_properties P fs) @ ''}'')"
| "stringify_elements P [] = []"
| "stringify_elements P (x # xs) =
     (case JSON_stringify P x of None \<Rightarrow> ''null'' | Some t \<Rightarrow> t) # stringify_elements P xs"
| "stringify_properties P [] = []"
| "stringify_properties P ((k, v) # fs) =
     (case JSON_stringify P v of
        None \<Rightarrow> stringify_properties P fs
      | Some t \<Rightarrow> (JSON_quote k @ '':'' @ t) # stringify_properties P fs)"

section \<open>The workflows\<close>

subsection \<open>Iframe authorisation\<close>

definition getIframeAuthorizationToken ::
  "'w platform \<Rightarrow> GateHubClient \<Rightarrow> string \<Rightarrow> string list \<Rightarrow> string \<Rightarrow> 'w io
     \<Rightarrow> (exn + js_value) \<times> 'w io" where
  "getIframeAuthorizationToken P c clientId scope uuid st =
     (let u = apiUrl c @ ''/auth/v1/tokens?clientId='' @ clientId;
          body = JObj [(''scope'', JArr (map JStr scope))];
          (r, st') = request P c ''POST'' u (JSON_stringify P body)
                       (Some \<lparr>managedUserUuid = Some uuid, token = JUndefined, cardAppId = None\<rparr>) st
      in case r of
           Inl e \<Rightarrow> (Inl e, st')
         | Inr response \<Rightarrow> (js_get P response ''token'', st'))"

definition getWithdrawalUrl ::
  "'w platform \<Rightarrow> gatehub_consts \<Rightarrow> GateHubClient \<Rightarrow> string \<Rightarrow> 'w io \<Rightarrow> (exn + string) \<times> 'w io" where
  "getWithdrawalUrl P K c uuid st =
     (let (r, st') = getIframeAuthorizationToken P c (onOffRamp (clientIds c)) (DEFAULT_APP_SCOPE K) uuid st
      in case r of
           Inl e \<Rightarrow> (Inl e, st')
         | Inr tok \<Rightarrow>
             (Inr (rampUrl c @ ''/?paymentType='' @ PAYMENT_TYPE_withdrawal K @ ''&bearer=''
                   @ template_str P tok), st'))"

definition getDepositUrl ::
  "'w platform \<Rightarrow> gatehub_consts \<Rightarrow> GateHubClient \<Rightarrow> string \<Rightarrow> 'w io \<Rightarrow> (exn + string) \<times> 'w io" where
  "getDepositUrl P K c uuid st =
     (let (r, st') = getIframeAuthorizationToken P c (onOffRamp (clientIds c)) (DEFAULT_APP_SCOPE K) uuid st
      in case r of
           Inl e \<Rightarrow> (Inl e, st')
         | Inr tok \<Rightarrow>
             (Inr (rampUrl c @ ''/?paymentType='' @ PAYMENT_TYPE_deposit K @ ''&bearer=''
                   @ template_str P tok), st'))"

definition getOnboardingUrl ::
  "'w platform \<Rightarrow> gatehub_consts \<Rightarrow> GateHubClient \<Rightarrow> string \<Rightarrow> 'w io \<Rightarrow> (exn + string) \<times> 'w io" where
  "getOnboardingUrl P K c uuid st =
     (let (r, st') = getIframeAuthorizationToken P c (onboarding (clientIds c)) (ONBOARDING_APP_SCOPE K) uuid st
      in case r of
           Inl e \<Rightarrow> (Inl e, st')
         | Inr tok \<Rightarrow> (Inr (onboardingUrl c @ ''/?bearer='' @ template_str P tok), st'))"

definition getExchangeUrl ::
  "'w platform \<Rightarrow> gatehub_consts \<Rightarrow> GateHubClient \<Rightarrow> string \<Rightarrow> 'w io \<Rightarrow> (exn + string) \<times> 'w io" where
  "getExchangeUrl P K c uuid st =
     (let (r, st') = getIframeAuthorizationToken P c (exchange (clientIds c)) (DEFAULT_APP_SCOPE K) uuid st
      in case r of
           Inl e \<Rightarrow> (Inl e, st')
         | Inr tok \<Rightarrow> (Inr (exchangeUrl c @ ''/?bearer='' @ template_str P tok), st'))"

text \<open>
  \<^verbatim>\<open>iframeMappings\<close> is an object literal with the four keys of \<^verbatim>\<open>IFRAME_TYPE\<close>, each
  bound to its handler. \<^verbatim>\<open>this.iframeMappings[type]\<close> is a property lookup on it: one of
  the four handlers, a member inherited from \<^verbatim>\<open>Object.prototype\<close>, or \<^verbatim>\<open>undefined\<close>.
\<close>

datatype IFRAME_TYPE = Deposit | Withdrawal | Exchange | Onboarding

datatype iframe_slot = Handler IFRAME_TYPE | Inherited string | Absent

definition iframeMappings :: "string \<Rightarrow> iframe_slot" where
  "iframeMappings t =
     (if t = ''deposit'' then Handler Deposit
      else if t = ''withdrawal'' then Handler Withdrawal
      else if t = ''exchange'' then Handler Exchange
      else if t = ''onboarding'' then Handler Onboarding
      else if t \<in> set Object_prototype_keys then Inherited t
      else Absent)"

text \<open>
  \<^verbatim>\<open>getIframeUrl\<close> throws \<^verbatim>\<open>BadRequest\<close> when the lookup is falsy and otherwise calls
  what it found with the uuid.
\<close>

definition getIframeUrl ::
  "'w platform \<Rightarrow> gatehub_consts \<Rightarrow> GateHubClient \<Rightarrow> string \<Rightarrow> string \<Rightarrow> 'w io
     \<Rightarrow> (exn + js_value) \<times> 'w io" where
  "getIframeUrl P K c type uuid st =
     (case iframeMappings type of
        Absent \<Rightarrow> (Inl (BadRequest ''Invalid iframe type''), st)
      | Handler k \<Rightarrow>
          (let (r, st') =
                 (case k of
                    Deposit \<Rightarrow> getDepositUrl P K c uuid st
                  | Withdrawal \<Rightarrow> getWithdrawalUrl P K c uuid st
                  | Exchange \<Rightarrow> getExchangeUrl P K c uuid st
                  | Onboarding \<Rightarrow> getOnboardingUrl P K c uuid st)
           in (case r of Inl e \<Rightarrow> Inl e | Inr s \<Rightarrow> Inr (JStr s), st'))
      | Inherited n \<Rightarrow>
          (case Object_prototype_invoke P n uuid of
             Inl e \<Rightarrow> (Inl (Native e), st)
           | Inr v \<Rightarrow> (Inr v, st)))"

subsection \<open>Identity workflow\<close>

definition updateEmailForManagedUser ::
  "'w platform \<Rightarrow> GateHubClient \<Rightarrow> string \<Rightarrow> 'w io \<Rightarrow> (exn + js_value) \<times> 'w io" where
  "updateEmailForManagedUser P c email st =
     request P c ''PUT'' (apiUrl c @ ''/auth/v1/users/managed/email'')
       (JSON_stringify P (JObj [(''email'', JStr email)])) None st"

definition createManagedUser ::
  "'w platform \<Rightarrow> GateHubClient \<Rightarrow> string \<Rightarrow> 'w io \<Rightarrow> (exn + js_value) \<times> 'w io" where
  "createManagedUser P c email st =
     request P c ''POST'' (apiUrl c @ ''/auth/v1/users/managed'')
       (JSON_stringify P (JObj [(''email'', JStr email)])) None st"

definition getUserState ::
  "'w platform \<Rightarrow> GateHubClient \<Rightarrow> string \<Rightarrow> 'w io \<Rightarrow> (exn + js_value) \<times> 'w io" where
  "getUserState P c userId st =
     request P c ''GET'' (apiUrl c @ ''/id/v1/users/'' @ userId) None None st"

definition approve_body :: js_value where
  "approve_body =
     JObj [(''verified'', JNum (Fin 1)), (''reasons'', JArr []), (''customMessage'', JBool False)]"

definition approveUserToGateway ::
  "'w platform \<Rightarrow> GateHubClient \<Rightarrow> string \<Rightarrow> string \<Rightarrow> 'w io \<Rightarrow> (exn + js_value) \<times> 'w io" where
  "approveUserToGateway P c userUuid gatewayUuid st =
     request P c ''PUT'' (apiUrl c @ ''/id/v1/hubs/'' @ gatewayUuid @ ''/users/'' @ userUuid)
       (JSON_stringify P approve_body) None st"

definition connectUserToGateway ::
  "'w platform \<Rightarrow> GateHubClient \<Rightarrow> string \<Rightarrow> string \<Rightarrow> 'w io \<Rightarrow> (exn + bool) \<times> 'w io" where
  "connectUserToGateway P c uuid gatewayUuid st =
     (let u = apiUrl c @ ''/id/v1/users/'' @ uuid @ ''/hubs/'' @ gatewayUuid;
          (r1, st1) = request P c ''POST'' u None
                        (Some \<lparr>managedUserUuid = Some uuid, token = JUndefined, cardAppId = None\<rparr>) st
      in case r1 of
           Inl e \<Rightarrow> (Inl e, st1)
         | Inr _ \<Rightarrow>
             if \<not> isProduction c
             then (let (r2, st2) = approveUserToGateway P c uuid gatewayUuid st1
                   in case r2 of Inl e \<Rightarrow> (Inl e, st2) | Inr _ \<Rightarrow> (Inr True, st2))
             else (Inr False, st1))"

subsection \<open>Wallets, transactions and rates\<close>

definition createWallet ::
  "'w platform \<Rightarrow> gatehub_consts \<Rightarrow> GateHubClient \<Rightarrow> string \<Rightarrow> string \<Rightarrow> 'w io
     \<Rightarrow> (exn + js_value) \<times> 'w io" where
  "createWallet P K c uuid name st =
     request P c ''POST'' (apiUrl c @ ''/core/v1/users/'' @ uuid @ ''/wallets'')
       (JSON_stringify P (JObj [(''name'', JStr name), (''type'', JStr (HOSTED_WALLET_TYPE K))]))
       (Some \<lparr>managedUserUuid = Some uuid, token = JUndefined, cardAppId = None\<rparr>) st"

definition getWallet ::
  "'w platform \<Rightarrow> GateHubClient \<Rightarrow> string \<Rightarrow> string \<Rightarrow> 'w io \<Rightarrow> (exn + js_value) \<times> 'w io" where
  "getWallet P c userUuid walletId st =
     request P c ''GET'' (apiUrl c @ ''/core/v1/users/'' @ userUuid @ ''/wallets/'' @ walletId)
       None None st"

definition getWalletBalance ::
  "'w platform \<Rightarrow> GateHubClient \<Rightarrow> string \<Rightarrow> 'w io \<Rightarrow> (exn + js_value) \<times> 'w io" where
  "getWalletBalance P c walletId st =
     request P c ''GET'' (apiUrl c @ ''/core/v1/wallets/'' @ walletId @ ''/balances'') None None st"

definition createTransaction ::
  "'w platform \<Rightarrow> GateHubClient \<Rightarrow> js_value \<Rightarrow> 'w io \<Rightarrow> (exn + js_value) \<times> 'w io" where
  "createTransaction P c body st =
     request P c ''POST'' (apiUrl c @ ''/core/v1/transactions'') (JSON_stringify P body) None st"

definition getVaults ::
  "'w platform \<Rightarrow> GateHubClient \<Rightarrow> 'w io \<Rightarrow> (exn + js_value) \<times> 'w io" where
  "getVaults P c st =
     request P c ''GET'' (apiUrl c @ ''/rates/v1/liquidity_provider/vaults'') None None st"

text \<open>
  The loop of \<^verbatim>\<open>getRates\<close> over \<^verbatim>\<open>SUPPORTED_ASSET_CODES\<close>: the accumulator is the record
  \<^verbatim>\<open>flatRates\<close>, a map from codes to numbers.
\<close>

fun getRates_loop ::
  "'w platform \<Rightarrow> js_value \<Rightarrow> string list \<Rightarrow> (string \<rightharpoonup> number) \<Rightarrow> exn + (string \<rightharpoonup> number)" where
  "getRates_loop P response [] flatRates = Inr flatRates"
| "getRates_loop P response (code # codes) flatRates =
     (case js_get P response code of
        Inl e \<Rightarrow> Inl e
      | Inr rateObj \<Rightarrow>
          if truthy rateObj \<and> \<not> typeof_string rateObj
          then (case js_get P rateObj ''rate'' of
                  Inl e \<Rightarrow> Inl e
                | Inr r \<Rightarrow> getRates_loop P response codes (flatRates(code \<mapsto> ToNumber P r)))
          else getRates_loop P response codes flatRates)"

definition getRates_url :: "GateHubClient \<Rightarrow> string \<Rightarrow> string" where
  "getRates_url c base =
     apiUrl c @ ''/rates/v1/rates/current?counter='' @ base @ ''&amount=1&useAll=true''"

definition getRates ::
  "'w platform \<Rightarrow> gatehub_consts \<Rightarrow> GateHubClient \<Rightarrow> string \<Rightarrow> 'w io
     \<Rightarrow> (exn + (string \<rightharpoonup> number)) \<times> 'w io" where
  "getRates P K c base st =
     (let (r, st') = request P c ''GET'' (getRates_url c base) None None st
      in case r of
           Inl e \<Rightarrow> (Inl e, st')
         | Inr response \<Rightarrow> (getRates_loop P response (SUPPORTED_ASSET_CODES K) Map.empty, st'))"

subsection \<open>Cards\<close>

definition fetchCardApplicationProducts ::
  "'w platform \<Rightarrow> GateHubClient \<Rightarrow> 'w io \<Rightarrow> (exn + js_value) \<times> 'w io" where
  "fetchCardApplicationProducts P c st =
     request P c ''GET''
       (apiUrl c @ ''/v1/card-applications/'' @ GATEHUB_CARD_APP_ID (env c) @ ''/card-products'')
       None None st"

definition createCustomer ::
  "'w platform \<Rightarrow> GateHubClient \<Rightarrow> js_value \<Rightarrow> 'w io \<Rightarrow> (exn + js_value) \<times> 'w io" where
  "createCustomer P c requestBody st =
     request P c ''POST'' (apiUrl c @ ''/v1/customers'') (JSON_stringify P requestBody)
       (Some \<lparr>managedUserUuid = None, token = JUndefined,
              cardAppId = Some (GATEHUB_CARD_APP_ID (env c))\<rparr>) st"

definition getCardsByCustomer ::
  "'w platform \<Rightarrow> GateHubClient \<Rightarrow> string \<Rightarrow> 'w io \<Rightarrow> (exn + js_value) \<times> 'w io" where
  "getCardsByCustomer P c customerId st =
     request P c ''GET'' (apiUrl c @ ''/v1/customers/'' @ customerId @ ''/cards'') None None st"

text \<open>
  \<^verbatim>\<open>getCardDetails\<close>: the token hop, the check of the token, the data hop with the token
  among the options.
\<close>

definition getCardDetails ::
  "'w platform \<Rightarrow> GateHubClient \<Rightarrow> js_value \<Rightarrow> 'w io \<Rightarrow> (exn + js_value) \<times> 'w io" where
  "getCardDetails P c requestBody st =
     (let (r, st1) = request P c ''POST'' (apiUrl c @ ''/token/card-data'')
                       (JSON_stringify P requestBody)
                       (Some \<lparr>managedUserUuid = None, token = JUndefined,
                              cardAppId = Some (GATEHUB_CARD_APP_ID (env c))\<rparr>) st
      in case r of
           Inl e \<Rightarrow> (Inl e, st1)
         | Inr response \<Rightarrow>
             (case js_get P response ''token'' of
                Inl e \<Rightarrow> (Inl e, st1)
              | Inr tok \<Rightarrow>
                  if \<not> truthy tok
                  then (Inl (Error ''Failed to obtain token for card data retrieval''), st1)
                  else request P c ''GET'' (apiUrl c @ ''/v1/proxy/client-device/card-data'') None
                         (Some \<lparr>managedUserUuid = None, token = tok, cardAppId = None\<rparr>) st1))"

section \<open>A mocked platform\<close>

text \<open>
  A concrete platform for running the client: the world is the clock, which advances by
  one at each reading; the transport answers by a given function of the request; the
  stand-in for the HMAC puts the key before the message, so that the signed message can
  be read off a signature; every body parses; the coercions are tables over the values
  used below.
\<close>

definition mock_platform :: "(axios_config \<Rightarrow> exn + js_value) \<Rightarrow> nat platform" where
  "mock_platform answer =
     \<lparr>Date_now = (\<lambda>w. (w, Suc w)),
      axios = (\<lambda>cfg w. (answer cfg, w)),
      createHmac_sha256_hex = (\<lambda>key msg. key @ '':'' @ msg),
      JSON_parse_ok = (\<lambda>s. True),
      ToNumber = (\<lambda>v. if v = JStr ''1.25'' then Fin (5 / 4)
                       else if v = JStr ''2'' then Fin 2 else NaN),
      ToString_other = (\<lambda>v. ''[object Object]''),
      Number_toString_other = (\<lambda>q. ''0.5''),
      builtin_get = (\<lambda>v k. JUndefined),
      Object_prototype_invoke =
        (\<lambda>name arg. if name = ''toString'' then Inr (JStr ''[object Object]'')
                     else Inl TypeError)\<rparr>"

definition mock_env :: "string \<Rightarrow> Env" where
  "mock_env node_env =
     \<lparr>NODE_ENV = node_env, GATEHUB_ACCESS_KEY = ''access'', GATEHUB_SECRET_KEY = ''secret'',
      GATEHUB_CARD_APP_ID = ''card-app''\<rparr>"

definition mock_consts :: gatehub_consts where
  "mock_consts =
     \<lparr>DEFAULT_APP_SCOPE = [''default''],
      ONBOARDING_APP_SCOPE = [''onboarding''],
      HOSTED_WALLET_TYPE = ''hosted'',
      PAYMENT_TYPE_withdrawal = ''withdrawal'',
      PAYMENT_TYPE_deposit = ''deposit'',
      PRODUCTION_CLIENT_IDS = \<lparr>onOffRamp = ''p-ramp'', exchange = ''p-exchange'', onboarding = ''p-onboarding''\<rparr>,
      SANDBOX_CLIENT_IDS = \<lparr>onOffRamp = ''s-ramp'', exchange = ''s-exchange'', onboarding = ''s-onboarding''\<rparr>,
      SUPPORTED_ASSET_CODES = [''USD'', ''EUR'', ''GBP'']\<rparr>"

definition start :: "nat io" where
  "start = \<lparr>world = 1700000000000, calls = []\<rparr>"

section \<open>Vocabulary of the statements\<close>

text \<open>
  The text that \<^verbatim>\<open>JSON.stringify\<close> gives for the body of the approval, the calls that
  a run adds to the trace, and the part of a call that says what was asked of the
  provider.
\<close>

definition approve_json :: string where
  \<open>approve_json = ''{"verified":1,"reasons":[],"customMessage":false}''\<close>

definition new_calls :: "'w io \<Rightarrow> 'w io \<Rightarrow> axios_config list" where
  "new_calls st st' = drop (length (calls st)) (calls st')"

definition sent :: "axios_config \<Rightarrow> HTTP_METHODS \<times> string \<times> string option" where
  "sent q = (http_method q, url q, data q)"

text \<open>
  The mapping of C7 as the specification words it: the name of each kind, the client
  identifier set and the host that are active in an environment, the client identifier
  and scope documented for a kind, and the documented URL.
\<close>

definition IFRAME_TYPE_name :: "IFRAME_TYPE \<Rightarrow> string" where
  "IFRAME_TYPE_name k =
     (case k of Deposit \<Rightarrow> ''deposit'' | Withdrawal \<Rightarrow> ''withdrawal''
      | Exchange \<Rightarrow> ''exchange'' | Onboarding \<Rightarrow> ''onboarding'')"

definition active_ClientIds :: "gatehub_consts \<Rightarrow> Env \<Rightarrow> ClientIds" where
  "active_ClientIds K e =
     (if NODE_ENV e = ''production'' then PRODUCTION_CLIENT_IDS K else SANDBOX_CLIENT_IDS K)"

definition main_host :: "Env \<Rightarrow> string" where
  "main_host e = (if NODE_ENV e = ''production'' then ''gatehub.net'' else ''sandbox.gatehub.net'')"

definition documented_client_scope :: "gatehub_consts \<Rightarrow> Env \<Rightarrow> IFRAME_TYPE \<Rightarrow> string \<times> string list" where
  "documented_client_scope K e k =
     (case k of
        Deposit \<Rightarrow> (onOffRamp (active_ClientIds K e), DEFAULT_APP_SCOPE K)
      | Withdrawal \<Rightarrow> (onOffRamp (active_ClientIds K e), DEFAULT_APP_SCOPE K)
      | Exchange \<Rightarrow> (exchange (active_ClientIds K e), DEFAULT_APP_SCOPE K)
      | Onboarding \<Rightarrow> (onboarding (active_ClientIds K e), ONBOARDING_APP_SCOPE K))"

definition documented_iframe_url :: "gatehub_consts \<Rightarrow> Env \<Rightarrow> IFRAME_TYPE \<Rightarrow> string \<Rightarrow> string" where
  "documented_iframe_url K e k tok =
     (case k of
        Deposit \<Rightarrow> ''https://managed-ramp.'' @ main_host e @ ''/?paymentType='' @ PAYMENT_TYPE_deposit K
                    @ ''&bearer='' @ tok
      | Withdrawal \<Rightarrow> ''https://managed-ramp.'' @ main_host e @ ''/?paymentType='' @ PAYMENT_TYPE_withdrawal K
                    @ ''&bearer='' @ tok
      | Exchange \<Rightarrow> ''https://exchange.'' @ main_host e @ ''/?bearer='' @ tok
      | Onboarding \<Rightarrow> ''https://onboarding.'' @ main_host e @ ''/?bearer='' @ tok)"

text \<open>
  A mocked rates response: a rate object for a supported code, the string sentinel for
  another, and a rate object for a code that is not supported.
\<close>

definition mock_rates :: js_value where
  "mock_rates =
     JObj [(''USD'', JObj [(''type'', JStr ''spot''), (''rate'', JStr ''1.25'')]),
           (''EUR'', JStr ''not available''),
           (''XYZ'', JObj [(''rate'', JStr ''2'')])]"

section \<open>The public methods as one interface\<close>

text \<open>
  Every public method of the class with its arguments, and the state it leaves behind.
  \<^verbatim>\<open>approveUserToGateway\<close>, \<^verbatim>\<open>request\<close>, \<^verbatim>\<open>getRequestHeaders\<close> and \<^verbatim>\<open>getSignature\<close> are
  private.
\<close>

datatype api_call =
    GetWithdrawalUrl string
  | GetDepositUrl string
  | GetOnboardingUrl string
  | GetExchangeUrl string
  | GetIframeUrl string string
  | GetIframeAuthorizationToken string "string list" string
  | UpdateEmailForManagedUser string
  | CreateManagedUser string
  | GetUserState string
  | ConnectUserToGateway string string
  | CreateWallet string string
  | GetWallet string string
  | GetWalletBalance string
  | CreateTransaction js_value
  | GetVaults
  | GetRates string
  | FetchCardApplicationProducts
  | CreateCustomer js_value
  | GetCardsByCustomer string
  | GetCardDetails js_value

fun state_after :: "'w platform \<Rightarrow> gatehub_consts \<Rightarrow> GateHubClient \<Rightarrow> api_call \<Rightarrow> 'w io \<Rightarrow> 'w io" where
  "state_after P K c (GetWithdrawalUrl uuid) st = snd (getWithdrawalUrl P K c uuid st)"
| "state_after P K c (GetDepositUrl uuid) st = snd (getDepositUrl P K c uuid st)"
| "state_after P K c (GetOnboardingUrl uuid) st = snd (getOnboardingUrl P K c uuid st)"
| "state_after P K c (GetExchangeUrl uuid) st = snd (getExchangeUrl P K c uuid st)"
| "state_after P K c (GetIframeUrl type uuid) st = snd (getIframeUrl P K c type uuid st)"
| "state_after P K c (GetIframeAuthorizationToken clientId scope uuid) st =
     snd (getIframeAuthorizationToken P c clientId scope uuid st)"
| "state_after P K c (UpdateEmailForManagedUser email) st = snd (updateEmailForManagedUser P c email st)"
| "state_after P K c (CreateManagedUser email) st = snd (createManagedUser P c email st)"
| "state_after P K c (GetUserState userId) st = snd (getUserState P c userId st)"
| "state_after P K c (ConnectUserToGateway uuid gw) st = snd (connectUserToGateway P c uuid gw st)"
| "state_after P K c (CreateWallet uuid name) st = snd (createWallet P K c uuid name st)"
| "state_after P K c (GetWallet userUuid walletId) st = snd (getWallet P c userUuid walletId st)"
| "state_after P K c (GetWalletBalance walletId) st = snd (getWalletBalance P c walletId st)"
| "state_after P K c (CreateTransaction body) st = snd (createTransaction P c body st)"
| "state_after P K c GetVaults st = snd (getVaults P c st)"
| "state_after P K c (GetRates base) st = snd (getRates P K c base st)"
| "state_after P K c FetchCardApplicationProducts st = snd (fetchCardApplicationProducts P c st)"
| "state_after P K c (CreateCustomer requestBody) st = snd (createCustomer P c requestBody st)"
| "state_after P K c (GetCardsByCustomer customerId) st = snd (getCardsByCustomer P c customerId st)"
| "state_after P K c (GetCardDetails requestBody) st = snd (getCardDetails P c requestBody st)"

text \<open>
  A call carries the signature when it has the application identifier, a timestamp and
  the HMAC of its own timestamp, method, url and data; it carries a bearer token when
  it has an \<^verbatim>\<open>Authorization\<close> header. A plain call has the first and not the second.
\<close>

definition carries_signature :: "'w platform \<Rightarrow> GateHubClient \<Rightarrow> axios_config \<Rightarrow> bool" where
  "carries_signature P c q =
     (case map_of (headers q) ''x-gatehub-timestamp'' of
        None \<Rightarrow> False
      | Some t \<Rightarrow>
          map_of (headers q) ''x-gatehub-app-id'' = Some (GATEHUB_ACCESS_KEY (env c)) \<and>
          map_of (headers q) ''x-gatehub-signature'' =
            Some (getSignature P c t (http_method q) (url q) (data q)))"

definition carries_bearer :: "axios_config \<Rightarrow> bool" where
  "carries_bearer q = (map_of (headers q) ''Authorization'' \<noteq> None)"

definition is_GetCardDetails :: "api_call \<Rightarrow> bool" where
  "is_GetCardDetails a = (case a of GetCardDetails requestBody \<Rightarrow> True | _ \<Rightarrow> False)"

definition plain :: "'w platform \<Rightarrow> GateHubClient \<Rightarrow> axios_config \<Rightarrow> bool" where
  "plain P c q = (carries_signature P c q \<and> \<not> carries_bearer q)"

text \<open>A mocked platform whose provider answers every call with a token.\<close>

definition token_platform :: "nat platform" where
  "token_platform = mock_platform (\<lambda>q. Inr (JObj [(''token'', JStr ''tok-1'')]))"

section \<open>Facts about the runtime helpers and the transport\<close>

lemma toString_nat_digit: "n < 10 \<Longrightarrow> toString_nat n = [digit n]"
  by (subst toString_nat.simps) simp

lemma toString_nat_more: "10 \<le> n \<Longrightarrow> toString_nat n = toString_nat (n div 10) @ [digit (n mod 10)]"
  by (subst toString_nat.simps) simp

lemma toString_nat_now: "toString_nat 1700000000000 = ''1700000000000''"
  by (simp add: toString_nat_digit toString_nat_more digit_def)

lemma toSign_eq:
  "getSignature_toSign t m u body =
     (if body = None \<or> body = Some [] then t @ ''|'' @ m @ ''|'' @ u
      else t @ ''|'' @ m @ ''|'' @ u @ ''|'' @ the body)"
  by (auto simp: getSignature_toSign_def getSignature_args_def truthy_str_def split: option.splits)

lemma toSign_nullish_coalesce:
  "getSignature_toSign t m u (Some (case body of None \<Rightarrow> [] | Some b \<Rightarrow> b)) = getSignature_toSign t m u body"
  by (auto simp: toSign_eq split: option.splits)

lemma request_calls:
  "calls (snd (request P c m u body ho st)) =
     calls st @ [request_config P c (toString_nat (fst (Date_now P (world st)))) m u body ho]"
  by (simp add: request_def Let_def split: prod.splits sum.splits)

lemma request_config_signature:
  "map_of (headers (request_config P c t m u body ho)) ''x-gatehub-signature'' =
     Some (createHmac_sha256_hex P (GATEHUB_SECRET_KEY (env c)) (getSignature_toSign t m u body))"
  by (simp add: request_config_def getRequestHeaders_def getSignature_def toSign_nullish_coalesce)

lemma request_config_timestamp:
  "map_of (headers (request_config P c t m u body ho)) ''x-gatehub-timestamp'' = Some t"
  by (simp add: request_config_def getRequestHeaders_def)

lemma pipe_split:
  "CHR ''|'' \<notin> set a \<Longrightarrow> CHR ''|'' \<notin> set a' \<Longrightarrow> a @ CHR ''|'' # r = a' @ CHR ''|'' # r' \<Longrightarrow> a = a' \<and> r = r'"
proof (induction a arbitrary: a')
  case Nil
  then show ?case by (cases a') auto
next
  case (Cons x xs)
  then show ?case by (cases a') auto
qed

lemma toSign_inj:
  assumes "CHR ''|'' \<notin> set t \<union> set m \<union> set u" "CHR ''|'' \<notin> set t' \<union> set m' \<union> set u'"
    and "b \<noteq> Some []" "b' \<noteq> Some []"
    and "getSignature_toSign t m u b = getSignature_toSign t' m' u' b'"
  shows "t = t' \<and> m = m' \<and> u = u' \<and> b = b'"
proof -
  define r where "r = (case b of None \<Rightarrow> [] | Some x \<Rightarrow> CHR ''|'' # x)"
  define r' where "r' = (case b' of None \<Rightarrow> [] | Some x \<Rightarrow> CHR ''|'' # x)"
  have S: "getSignature_toSign t m u b = t @ CHR ''|'' # (m @ CHR ''|'' # (u @ r))"
    using assms(3) by (cases b) (simp_all add: toSign_eq r_def)
  have S': "getSignature_toSign t' m' u' b' = t' @ CHR ''|'' # (m' @ CHR ''|'' # (u' @ r'))"
    using assms(4) by (cases b') (simp_all add: toSign_eq r'_def)
  have E: "t @ CHR ''|'' # (m @ CHR ''|'' # (u @ r)) = t' @ CHR ''|'' # (m' @ CHR ''|'' # (u' @ r'))"
    using assms(5) S S' by simp
  have nt: "CHR ''|'' \<notin> set t" "CHR ''|'' \<notin> set m" "CHR ''|'' \<notin> set u"
    using assms(1) by simp_all
  have nt': "CHR ''|'' \<notin> set t'" "CHR ''|'' \<notin> set m'" "CHR ''|'' \<notin> set u'"
    using assms(2) by simp_all
  have T: "t = t'" and E2: "m @ CHR ''|'' # (u @ r) = m' @ CHR ''|'' # (u' @ r')"
    using pipe_split[OF nt(1) nt'(1) E] by blast+
  have M: "m = m'" and E3: "u @ r = u' @ r'"
    using pipe_split[OF nt(2) nt'(2) E2] by blast+
  have "u = u' \<and> b = b'"
  proof (cases b)
    case None
    show ?thesis
    proof (cases b')
      case None
      with \<open>b = None\<close> E3 show ?thesis by (simp add: r_def r'_def)
    next
      case (Some x)
      with \<open>b = None\<close> E3 have "u = u' @ CHR ''|'' # x" by (simp add: r_def r'_def)
      then have "CHR ''|'' \<in> set u" by simp
      with nt(3) show ?thesis by simp
    qed
  next
    case (Some y)
    show ?thesis
    proof (cases b')
      case None
      with \<open>b = Some y\<close> E3 have "u' = u @ CHR ''|'' # y" by (simp add: r_def r'_def)
      then have "CHR ''|'' \<in> set u'" by simp
      with nt'(3) show ?thesis by simp
    next
      case (Some x)
      with \<open>b = Some y\<close> E3 have "u @ CHR ''|'' # y = u' @ CHR ''|'' # x" by (simp add: r_def r'_def)
      from pipe_split[OF nt(3) nt'(3) this] Some \<open>b = Some y\<close> show ?thesis by blast
    qed
  qed
  with T M show ?thesis by blast
qed

lemma request_config_data:
  "data (request_config P c t m u body ho) = (if body = None \<or> body = Some [] then None else body)"
  by (auto simp: request_config_def truthy_str_def split: option.splits)

lemma mock_now: "toString_nat (fst (Date_now (mock_platform answer) (world start))) = ''1700000000000''"
  by (simp add: mock_platform_def start_def toString_nat_now)

section \<open>The signing string\<close>

text \<open>
  C1, as the code has it. The request that \<^verbatim>\<open>request\<close> hands to the HTTP library carries
  the timestamp read at the call and the HMAC, under the secret key, of the signing
  string: \<^verbatim>\<open>timestamp|METHOD|url|body\<close> when the body is a non-empty string, and
  \<^verbatim>\<open>timestamp|METHOD|url\<close>, with no trailing delimiter, when the body is absent or is the
  empty string. The body segment is left out on emptiness, not only on absence.
\<close>

theorem request_signing_string:
  "calls (snd (request P c m u body ho st)) = calls st @ [cfg] \<Longrightarrow>
   t = toString_nat (fst (Date_now P (world st))) \<Longrightarrow>
     map_of (headers cfg) ''x-gatehub-timestamp'' = Some t \<and>
     map_of (headers cfg) ''x-gatehub-signature'' =
       Some (createHmac_sha256_hex P (GATEHUB_SECRET_KEY (env c))
              (if body = None \<or> body = Some [] then t @ ''|'' @ m @ ''|'' @ u
               else t @ ''|'' @ m @ ''|'' @ u @ ''|'' @ the body))"
  using request_config_signature[of P c t m u body ho] request_config_timestamp[of P c t m u body ho]
  by (simp add: request_calls toSign_eq)

theorem request_signing_string_witness:
  "map_of (headers (request_config (mock_platform (\<lambda>q. Inr JNull))
       (GateHubClient_new mock_consts (mock_env ''development'')) ''1700000000000''
       ''POST'' ''https://api.sandbox.gatehub.net/x'' (Some ''{}'') None)) ''x-gatehub-signature'' =
     Some ''secret:1700000000000|POST|https://api.sandbox.gatehub.net/x|{}''"
proof -
  let ?P = "mock_platform (\<lambda>q. Inr JNull)"
  let ?c = "GateHubClient_new mock_consts (mock_env ''development'')"
  let ?u = "''https://api.sandbox.gatehub.net/x''"
  have 1: "calls (snd (request ?P ?c ''POST'' ?u (Some ''{}'') None start)) =
      calls start @ [request_config ?P ?c ''1700000000000'' ''POST'' ?u (Some ''{}'') None]"
    by (simp add: request_calls mock_now)
  have 2: "''1700000000000'' = toString_nat (fst (Date_now ?P (world start)))"
    by (simp add: mock_now)
  from request_signing_string[OF 1 2] show ?thesis
    by (simp add: mock_platform_def GateHubClient_new_def mock_env_def isProduction_def)
qed

text \<open>
  C1 as stated fails for a body that is present and empty: its signing string is the
  three-component string of an absent body, not \<^verbatim>\<open>timestamp|METHOD|url|\<close>.
\<close>

theorem empty_body_signing_string_counterexample:
  "getSignature_toSign ''1700000000000'' ''PUT'' ''https://api.sandbox.gatehub.net/x'' (Some [])
     \<noteq> ''1700000000000|PUT|https://api.sandbox.gatehub.net/x|'' \<and>
   getSignature_toSign ''1700000000000'' ''PUT'' ''https://api.sandbox.gatehub.net/x'' (Some [])
     = getSignature_toSign ''1700000000000'' ''PUT'' ''https://api.sandbox.gatehub.net/x'' None \<and>
   map_of (headers (last (calls (snd (request (mock_platform (\<lambda>q. Inr JNull))
       (GateHubClient_new mock_consts (mock_env ''development''))
       ''PUT'' ''https://api.sandbox.gatehub.net/x'' (Some []) None start)))))
     ''x-gatehub-signature'' = Some ''secret:1700000000000|PUT|https://api.sandbox.gatehub.net/x''"
  by (simp add: toSign_eq request_calls request_config_signature mock_now)
     (simp add: mock_platform_def GateHubClient_new_def mock_env_def isProduction_def)

section \<open>The header set\<close>

text \<open>
  C8, as the code has it. The headers of every request hold the content type, the
  application identifier, the timestamp and the signature. The managed-user-uuid header,
  the card-application-id header and the \<^verbatim>\<open>Authorization: Bearer\<close> header are each
  present exactly when the corresponding option is given with a truthy value (a
  non-empty string), each with that value, and independently of the other two.
\<close>

theorem getRequestHeaders_entries:
  "(''Content-Type'', ''application/json'') \<in> set (getRequestHeaders P c t m u b ho) \<and>
   (''x-gatehub-app-id'', GATEHUB_ACCESS_KEY (env c)) \<in> set (getRequestHeaders P c t m u b ho) \<and>
   (''x-gatehub-timestamp'', t) \<in> set (getRequestHeaders P c t m u b ho) \<and>
   (''x-gatehub-signature'', getSignature P c t m u b) \<in> set (getRequestHeaders P c t m u b ho) \<and>
   ((''x-gatehub-managed-user-uuid'', v1) \<in> set (getRequestHeaders P c t m u b ho)
      \<longleftrightarrow> (\<exists>h. ho = Some h \<and> managedUserUuid h = Some v1 \<and> v1 \<noteq> [])) \<and>
   ((''x-gatehub-card-app-id'', v2) \<in> set (getRequestHeaders P c t m u b ho)
      \<longleftrightarrow> (\<exists>h. ho = Some h \<and> cardAppId h = Some v2 \<and> v2 \<noteq> [])) \<and>
   ((''Authorization'', v3) \<in> set (getRequestHeaders P c t m u b ho)
      \<longleftrightarrow> (\<exists>h. ho = Some h \<and> truthy (token h) \<and> v3 = ''Bearer '' @ template_str P (token h)))"
  by (cases ho) (auto simp: getRequestHeaders_def truthy_str_def split: option.splits)

theorem getRequestHeaders_entries_witness:
  "set (getRequestHeaders (mock_platform (\<lambda>q. Inr JNull))
          (GateHubClient_new mock_consts (mock_env ''development''))
          ''1700000000000'' ''GET'' ''https://x'' None
          (Some \<lparr>managedUserUuid = Some ''user-1'', token = JStr ''tok'', cardAppId = Some ''card-app''\<rparr>))
     \<supseteq> {(''Content-Type'', ''application/json''), (''x-gatehub-app-id'', ''access''),
         (''x-gatehub-timestamp'', ''1700000000000''),
         (''x-gatehub-managed-user-uuid'', ''user-1''), (''x-gatehub-card-app-id'', ''card-app''),
         (''Authorization'', ''Bearer tok'')}"
  using getRequestHeaders_entries[of "mock_platform (\<lambda>q. Inr JNull)"
          "GateHubClient_new mock_consts (mock_env ''development'')"
          "''1700000000000''" "''GET''" "''https://x''" None
          "Some \<lparr>managedUserUuid = Some ''user-1'', token = JStr ''tok'', cardAppId = Some ''card-app''\<rparr>"
          "''user-1''" "''card-app''" "''Bearer tok''"]
  by (simp add: template_str_def GateHubClient_new_def mock_env_def isProduction_def)

text \<open>
  C8 as stated fails for an option that is supplied with the empty string: the header is
  not sent.
\<close>

theorem empty_option_header_counterexample:
  "''x-gatehub-managed-user-uuid'' \<notin> fst ` set (getRequestHeaders (mock_platform (\<lambda>q. Inr JNull))
      (GateHubClient_new mock_consts (mock_env ''development''))
      ''1700000000000'' ''GET'' ''https://x'' None
      (Some \<lparr>managedUserUuid = Some [], token = JUndefined, cardAppId = None\<rparr>))"
  by (simp add: getRequestHeaders_def truthy_str_def)

section \<open>Collisions of the signature\<close>

text \<open>
  C9, as the code has it. The signature is a function of the secret key and of the
  signing string alone, so it is deterministic. Two input tuples whose timestamp, method
  and url contain no \<^verbatim>\<open>|\<close> and whose body is absent or non-empty, and which differ in
  some component, have different signing strings; the signatures then differ unless the
  HMAC itself collides on the two messages.
\<close>

theorem getSignature_distinct_inputs:
  assumes "CHR ''|'' \<notin> set t \<union> set m \<union> set u" and "CHR ''|'' \<notin> set t' \<union> set m' \<union> set u'"
    and "b \<noteq> Some []" and "b' \<noteq> Some []"
    and "(t, m, u, b) \<noteq> (t', m', u', b')"
  shows "getSignature P c t m u b =
           createHmac_sha256_hex P (GATEHUB_SECRET_KEY (env c)) (getSignature_toSign t m u b) \<and>
         getSignature P c t' m' u' b' =
           createHmac_sha256_hex P (GATEHUB_SECRET_KEY (env c)) (getSignature_toSign t' m' u' b') \<and>
         getSignature_toSign t m u b \<noteq> getSignature_toSign t' m' u' b'"
proof -
  have "getSignature_toSign t m u b \<noteq> getSignature_toSign t' m' u' b'"
  proof
    assume "getSignature_toSign t m u b = getSignature_toSign t' m' u' b'"
    from toSign_inj[OF assms(1,2,3,4) this] assms(5) show False by blast
  qed
  then show ?thesis by (simp add: getSignature_def)
qed

theorem getSignature_distinct_inputs_witness:
  "getSignature (mock_platform (\<lambda>q. Inr JNull)) (GateHubClient_new mock_consts (mock_env ''development''))
       ''1700000000000'' ''POST'' ''https://x'' (Some ''{}'') = ''secret:1700000000000|POST|https://x|{}'' \<and>
   getSignature (mock_platform (\<lambda>q. Inr JNull)) (GateHubClient_new mock_consts (mock_env ''development''))
       ''1700000000000'' ''POST'' ''https://x'' None = ''secret:1700000000000|POST|https://x'' \<and>
   getSignature_toSign ''1700000000000'' ''POST'' ''https://x'' (Some ''{}'')
     \<noteq> getSignature_toSign ''1700000000000'' ''POST'' ''https://x'' None"
  using getSignature_distinct_inputs[of "''1700000000000''" "''POST''" "''https://x''"
          "''1700000000000''" "''POST''" "''https://x''" "Some ''{}''" None
          "mock_platform (\<lambda>q. Inr JNull)" "GateHubClient_new mock_consts (mock_env ''development'')"]
  by (simp add: toSign_eq mock_platform_def GateHubClient_new_def mock_env_def isProduction_def)

text \<open>
  C9 as stated fails: an absent body and an empty body are signed alike, and so are a url
  that ends in \<^verbatim>\<open>|b\<close> without a body and the url before it with the body \<^verbatim>\<open>b\<close>, whatever
  the HMAC is.
\<close>

theorem getSignature_collision_counterexample:
  "(''1700000000000'', ''POST'', ''https://x'', Some [])
     \<noteq> (''1700000000000'', ''POST'', ''https://x'', None) \<and>
   getSignature (mock_platform (\<lambda>q. Inr JNull)) (GateHubClient_new mock_consts (mock_env ''development''))
       ''1700000000000'' ''POST'' ''https://x'' (Some [])
     = getSignature (mock_platform (\<lambda>q. Inr JNull)) (GateHubClient_new mock_consts (mock_env ''development''))
       ''1700000000000'' ''POST'' ''https://x'' None \<and>
   (''1700000000000'', ''POST'', ''https://x?a=1|b'', None)
     \<noteq> (''1700000000000'', ''POST'', ''https://x?a=1'', Some ''b'') \<and>
   getSignature (mock_platform (\<lambda>q. Inr JNull)) (GateHubClient_new mock_consts (mock_env ''development''))
       ''1700000000000'' ''POST'' ''https://x?a=1|b'' None
     = getSignature (mock_platform (\<lambda>q. Inr JNull)) (GateHubClient_new mock_consts (mock_env ''development''))
       ''1700000000000'' ''POST'' ''https://x?a=1'' (Some ''b'')"
  by (simp add: getSignature_def toSign_eq)

section \<open>Gateway connection\<close>

lemma Number_toString_1: "Number_toString P (Fin 1) = ''1''"
  by (simp add: Number_toString_def toString_nat_digit digit_def)

lemma JSON_stringify_approve_body: "JSON_stringify P approve_body = Some approve_json"
  by (simp add: approve_body_def approve_json_def Number_toString_1 JSON_quote_def JSON_escape_def)

lemma request_state:
  "request P c m u body ho st = (r, st') \<Longrightarrow>
     calls st' = calls st @ [request_config P c (toString_nat (fst (Date_now P (world st)))) m u body ho]"
  using request_calls[of P c m u body ho st] by simp

lemma sent_request_config:
  "sent (request_config P c t m u body ho) = (m, u, if body = None \<or> body = Some [] then None else body)"
  by (simp add: sent_def request_config_data) (simp add: request_config_def)

lemma approve_json_nonempty: "approve_json \<noteq> []"
  by (simp add: approve_json_def)

lemma approveUserToGateway_state:
  "approveUserToGateway P c uuid gw st = (r, st') \<Longrightarrow>
     map sent (new_calls st st') =
       [(''PUT'', apiUrl c @ ''/id/v1/hubs/'' @ gw @ ''/users/'' @ uuid, Some approve_json)]"
  by (auto simp: approveUserToGateway_def JSON_stringify_approve_body new_calls_def
        sent_request_config approve_json_nonempty dest!: request_state)

lemma mock_request:
  "request (mock_platform (\<lambda>q. Inr d)) c m u b ho st =
     (Inr d, snd (request (mock_platform (\<lambda>q. Inr d)) c m u b ho st))"
  by (simp add: request_def mock_platform_def log_payload_throws_def Let_def split: prod.splits)

lemma mock_client [simp]:
  "mainUrl (GateHubClient_new mock_consts (mock_env ''development'')) = ''sandbox.gatehub.net''"
  "clientIds (GateHubClient_new mock_consts (mock_env ''development'')) = SANDBOX_CLIENT_IDS mock_consts"
  "env (GateHubClient_new mock_consts (mock_env ''development'')) = mock_env ''development''"
  "\<not> isProduction (GateHubClient_new mock_consts (mock_env ''development''))"
  "mainUrl (GateHubClient_new mock_consts (mock_env ''production'')) = ''gatehub.net''"
  "clientIds (GateHubClient_new mock_consts (mock_env ''production'')) = PRODUCTION_CLIENT_IDS mock_consts"
  "env (GateHubClient_new mock_consts (mock_env ''production'')) = mock_env ''production''"
  "isProduction (GateHubClient_new mock_consts (mock_env ''production''))"
  by (simp_all add: GateHubClient_new_def mock_env_def isProduction_def)

text \<open>
  C2. Whenever the connect POST resolves: in production \<^verbatim>\<open>connectUserToGateway\<close> returns
  \<^verbatim>\<open>false\<close> and the connect POST, without a body, is the only call; outside production
  exactly two calls are made, the connect POST and then the approve PUT whose body is
  \<^verbatim>\<open>{"verified":1,"reasons":[],"customMessage":false}\<close>, the result is never \<^verbatim>\<open>false\<close>,
  and it is \<^verbatim>\<open>true\<close> exactly when the approve PUT resolves.
\<close>

theorem connectUserToGateway_sandbox_production:
  assumes connect: "request P c ''POST'' (apiUrl c @ ''/id/v1/users/'' @ uuid @ ''/hubs/'' @ gw) None
             (Some \<lparr>managedUserUuid = Some uuid, token = JUndefined, cardAppId = None\<rparr>) st = (Inr d1, st1)"
  shows "if isProduction c
         then connectUserToGateway P c uuid gw st = (Inr False, st1) \<and>
              map sent (new_calls st st1) =
                [(''POST'', apiUrl c @ ''/id/v1/users/'' @ uuid @ ''/hubs/'' @ gw, None)]
         else map sent (new_calls st (snd (connectUserToGateway P c uuid gw st))) =
                [(''POST'', apiUrl c @ ''/id/v1/users/'' @ uuid @ ''/hubs/'' @ gw, None),
                 (''PUT'', apiUrl c @ ''/id/v1/hubs/'' @ gw @ ''/users/'' @ uuid, Some approve_json)] \<and>
              fst (connectUserToGateway P c uuid gw st) \<noteq> Inr False \<and>
              (fst (connectUserToGateway P c uuid gw st) = Inr True
                 \<longleftrightarrow> (\<exists>d2. fst (approveUserToGateway P c uuid gw st1) = Inr d2))"
proof -
  obtain r2 st2 where approve: "approveUserToGateway P c uuid gw st1 = (r2, st2)"
    by (cases "approveUserToGateway P c uuid gw st1")
  have c1: "calls st1 = calls st @ [request_config P c (toString_nat (fst (Date_now P (world st)))) ''POST''
       (apiUrl c @ ''/id/v1/users/'' @ uuid @ ''/hubs/'' @ gw) None
       (Some \<lparr>managedUserUuid = Some uuid, token = JUndefined, cardAppId = None\<rparr>)]"
    by (rule request_state[OF connect])
  have s1: "map sent (new_calls st st1) =
      [(''POST'', apiUrl c @ ''/id/v1/users/'' @ uuid @ ''/hubs/'' @ gw, None)]"
    by (simp add: new_calls_def c1 sent_request_config)
  have s2: "map sent (new_calls st1 st2) =
      [(''PUT'', apiUrl c @ ''/id/v1/hubs/'' @ gw @ ''/users/'' @ uuid, Some approve_json)]"
    by (rule approveUserToGateway_state[OF approve])
  have "new_calls st st2 = new_calls st st1 @ new_calls st1 st2"
    using approve c1 by (auto simp: new_calls_def approveUserToGateway_def dest!: request_state)
  with s1 s2 have s12: "map sent (new_calls st st2) =
      [(''POST'', apiUrl c @ ''/id/v1/users/'' @ uuid @ ''/hubs/'' @ gw, None),
       (''PUT'', apiUrl c @ ''/id/v1/hubs/'' @ gw @ ''/users/'' @ uuid, Some approve_json)]"
    by simp
  show ?thesis
    using connect approve s1 s12 by (cases r2) (simp_all add: connectUserToGateway_def)
qed

theorem connectUserToGateway_sandbox_production_witness:
  "fst (connectUserToGateway (mock_platform (\<lambda>q. Inr JNull))
          (GateHubClient_new mock_consts (mock_env ''development'')) ''user-1'' ''gw-1'' start) = Inr True \<and>
   map sent (new_calls start (snd (connectUserToGateway (mock_platform (\<lambda>q. Inr JNull))
          (GateHubClient_new mock_consts (mock_env ''development'')) ''user-1'' ''gw-1'' start))) =
     [(''POST'', ''https://api.sandbox.gatehub.net/id/v1/users/user-1/hubs/gw-1'', None),
      (''PUT'', ''https://api.sandbox.gatehub.net/id/v1/hubs/gw-1/users/user-1'', Some approve_json)] \<and>
   fst (connectUserToGateway (mock_platform (\<lambda>q. Inr JNull))
          (GateHubClient_new mock_consts (mock_env ''production'')) ''user-1'' ''gw-1'' start) = Inr False \<and>
   map sent (new_calls start (snd (connectUserToGateway (mock_platform (\<lambda>q. Inr JNull))
          (GateHubClient_new mock_consts (mock_env ''production'')) ''user-1'' ''gw-1'' start))) =
     [(''POST'', ''https://api.gatehub.net/id/v1/users/user-1/hubs/gw-1'', None)]"
  using connectUserToGateway_sandbox_production[
          where P = "mock_platform (\<lambda>q. Inr JNull)" and uuid = "''user-1''" and gw = "''gw-1''"
            and c = "GateHubClient_new mock_consts (mock_env ''development'')" and st = start,
          OF mock_request]
        connectUserToGateway_sandbox_production[
          where P = "mock_platform (\<lambda>q. Inr JNull)" and uuid = "''user-1''" and gw = "''gw-1''"
            and c = "GateHubClient_new mock_consts (mock_env ''production'')" and st = start,
          OF mock_request]
  by (simp add: apiUrl_def approveUserToGateway_def mock_request[THEN arg_cong, of fst])

lemma mock_env_fields:
  "NODE_ENV (mock_env n) = n" "GATEHUB_ACCESS_KEY (mock_env n) = ''access''"
  "GATEHUB_SECRET_KEY (mock_env n) = ''secret''" "GATEHUB_CARD_APP_ID (mock_env n) = ''card-app''"
  by (simp_all add: mock_env_def)

lemma GateHubClient_new_fields:
  "clientIds (GateHubClient_new K e) = active_ClientIds K e"
  "mainUrl (GateHubClient_new K e) = main_host e"
  "env (GateHubClient_new K e) = e"
  by (simp_all add: GateHubClient_new_def active_ClientIds_def main_host_def isProduction_def Let_def)

lemma JSON_stringify_object_truthy:
  "JSON_stringify P (JObj fs) \<noteq> None \<and> JSON_stringify P (JObj fs) \<noteq> Some []"
  by simp

section \<open>Iframe URLs\<close>

text \<open>
  C7. For a client built by the constructor and each of the four kinds, when the token
  endpoint called with the documented client identifier and scope resolves with an
  object whose \<^verbatim>\<open>token\<close> is a string, \<^verbatim>\<open>getIframeUrl\<close> returns the documented URL with
  that token as \<^verbatim>\<open>bearer\<close>, and the token POST, with the scope as its body, is the only
  call it makes.
\<close>

theorem getIframeUrl_documented:
  assumes pair: "documented_client_scope K e k = (cid, scope)"
    and hop: "request P (GateHubClient_new K e) ''POST''
                (''https://api.'' @ main_host e @ ''/auth/v1/tokens?clientId='' @ cid)
                (JSON_stringify P (JObj [(''scope'', JArr (map JStr scope))]))
                (Some \<lparr>managedUserUuid = Some uuid, token = JUndefined, cardAppId = None\<rparr>) st
              = (Inr response, st1)"
    and tok: "js_get P response ''token'' = Inr (JStr tok)"
  shows "getIframeUrl P K (GateHubClient_new K e) (IFRAME_TYPE_name k) uuid st
           = (Inr (JStr (documented_iframe_url K e k tok)), st1) \<and>
         map sent (new_calls st st1) =
           [(''POST'', ''https://api.'' @ main_host e @ ''/auth/v1/tokens?clientId='' @ cid,
             JSON_stringify P (JObj [(''scope'', JArr (map JStr scope))]))]"
proof -
  have calls: "map sent (new_calls st st1) =
           [(''POST'', ''https://api.'' @ main_host e @ ''/auth/v1/tokens?clientId='' @ cid,
             JSON_stringify P (JObj [(''scope'', JArr (map JStr scope))]))]"
    using request_state[OF hop] by (simp add: new_calls_def sent_request_config)
  have "getIframeUrl P K (GateHubClient_new K e) (IFRAME_TYPE_name k) uuid st
           = (Inr (JStr (documented_iframe_url K e k tok)), st1)"
    using pair hop tok
    by (cases k)
       (auto simp: getIframeUrl_def iframeMappings_def IFRAME_TYPE_name_def documented_client_scope_def
          documented_iframe_url_def getDepositUrl_def getWithdrawalUrl_def getExchangeUrl_def
          getOnboardingUrl_def getIframeAuthorizationToken_def apiUrl_def rampUrl_def exchangeUrl_def
          onboardingUrl_def GateHubClient_new_fields template_str_def simp del: JSON_stringify.simps)
  with calls show ?thesis by simp
qed

theorem getIframeUrl_documented_witness:
  \<open>fst (getIframeUrl (mock_platform (\<lambda>q. Inr (JObj [(''token'', JStr ''tok-1'')]))) mock_consts
          (GateHubClient_new mock_consts (mock_env ''development'')) ''deposit'' ''user-1'' start)
     = Inr (JStr ''https://managed-ramp.sandbox.gatehub.net/?paymentType=deposit&bearer=tok-1'') \<and>
   map sent (new_calls start (snd (getIframeUrl (mock_platform (\<lambda>q. Inr (JObj [(''token'', JStr ''tok-1'')])))
          mock_consts (GateHubClient_new mock_consts (mock_env ''development'')) ''deposit'' ''user-1'' start)))
     = [(''POST'', ''https://api.sandbox.gatehub.net/auth/v1/tokens?clientId=s-ramp'',
         Some ''{"scope":["default"]}'')] \<and>
   fst (getIframeUrl (mock_platform (\<lambda>q. Inr (JObj [(''token'', JStr ''tok-1'')]))) mock_consts
          (GateHubClient_new mock_consts (mock_env ''production'')) ''onboarding'' ''user-1'' start)
     = Inr (JStr ''https://onboarding.gatehub.net/?bearer=tok-1'') \<and>
   map sent (new_calls start (snd (getIframeUrl (mock_platform (\<lambda>q. Inr (JObj [(''token'', JStr ''tok-1'')])))
          mock_consts (GateHubClient_new mock_consts (mock_env ''production'')) ''onboarding'' ''user-1'' start)))
     = [(''POST'', ''https://api.gatehub.net/auth/v1/tokens?clientId=p-onboarding'',
         Some ''{"scope":["onboarding"]}'')]\<close>
proof -
  have p1: "documented_client_scope mock_consts (mock_env ''development'') Deposit = (''s-ramp'', [''default''])"
    by (simp add: documented_client_scope_def active_ClientIds_def mock_env_fields mock_consts_def)
  have p2: "documented_client_scope mock_consts (mock_env ''production'') Onboarding
              = (''p-onboarding'', [''onboarding''])"
    by (simp add: documented_client_scope_def active_ClientIds_def mock_env_fields mock_consts_def)
  have t: "js_get (mock_platform (\<lambda>q. Inr (JObj [(''token'', JStr ''tok-1'')])))
             (JObj [(''token'', JStr ''tok-1'')]) ''token'' = Inr (JStr ''tok-1'')"
    by (simp add: js_get_def)
  from getIframeUrl_documented[OF p1 mock_request t, of "''user-1''" start]
       getIframeUrl_documented[OF p2 mock_request t, of "''user-1''" start]
  show ?thesis
    by (simp add: IFRAME_TYPE_name_def documented_iframe_url_def main_host_def mock_env_fields
          mock_consts_def JSON_quote_def JSON_escape_def)
qed

section \<open>Unrecognised iframe kinds\<close>

lemma getIframeUrl_unrecognized:
  "type \<notin> {''deposit'', ''withdrawal'', ''exchange'', ''onboarding''} \<Longrightarrow>
   type \<notin> set Object_prototype_keys \<Longrightarrow>
     getIframeUrl P K c type uuid st = (Inl (BadRequest ''Invalid iframe type''), st)"
  by (simp add: getIframeUrl_def iframeMappings_def)

lemma getIframeUrl_unrecognized_no_call:
  "type \<notin> {''deposit'', ''withdrawal'', ''exchange'', ''onboarding''} \<Longrightarrow>
     snd (getIframeUrl P K c type uuid st) = st"
  by (auto simp: getIframeUrl_def iframeMappings_def split: sum.splits)

text \<open>
  C6 at the kind \<^verbatim>\<open>toString\<close>, which is none of the four: the lookup in
  \<^verbatim>\<open>iframeMappings\<close> finds the function that every object inherits, the guard does not
  throw, and the outcome is that of calling that function. No \<^verbatim>\<open>BadRequest\<close> is raised;
  no call is made either.
\<close>

theorem getIframeUrl_inherited_kind:
  "''toString'' \<notin> {''deposit'', ''withdrawal'', ''exchange'', ''onboarding''} \<and>
   getIframeUrl P K c ''toString'' uuid st =
     (case Object_prototype_invoke P ''toString'' uuid of Inl e \<Rightarrow> Inl (Native e) | Inr v \<Rightarrow> Inr v, st) \<and>
   (\<forall>msg. fst (getIframeUrl P K c ''toString'' uuid st) \<noteq> Inl (BadRequest msg))"
  by (simp add: getIframeUrl_def iframeMappings_def Object_prototype_keys_def split: sum.splits)

lemma getIframeUrl_toString_run:
  "getIframeUrl (mock_platform (\<lambda>q. Inr JNull)) mock_consts
     (GateHubClient_new mock_consts (mock_env ''development'')) ''toString'' ''user-1'' start
   = (Inr (JStr ''[object Object]''), start)"
  by (simp add: getIframeUrl_def iframeMappings_def Object_prototype_keys_def mock_platform_def)

section \<open>Card details\<close>

text \<open>
  C3. When the token hop did not yield a truthy token (the hop was rejected, or the
  \<^verbatim>\<open>token\<close> of its response is absent or falsy, or cannot be read), \<^verbatim>\<open>getCardDetails\<close>
  fails and the token POST is the only call made: the data GET is not attempted. When
  the response was received and its \<^verbatim>\<open>token\<close> could be read, the error is the local
  \<^verbatim>\<open>Error('Failed to obtain token for card data retrieval')\<close>.
\<close>

theorem getCardDetails_token_required:
  assumes hop: "request P c ''POST'' (apiUrl c @ ''/token/card-data'') (JSON_stringify P requestBody)
                  (Some \<lparr>managedUserUuid = None, token = JUndefined,
                         cardAppId = Some (GATEHUB_CARD_APP_ID (env c))\<rparr>) st = (r1, st1)"
    and no_token: "\<not> (\<exists>response tok. r1 = Inr response \<and> js_get P response ''token'' = Inr tok \<and> truthy tok)"
  shows "\<exists>e. getCardDetails P c requestBody st = (Inl e, st1) \<and>
           (\<forall>response tok. r1 = Inr response \<and> js_get P response ''token'' = Inr tok
              \<longrightarrow> e = Error ''Failed to obtain token for card data retrieval'') \<and>
           map sent (new_calls st st1) =
             [(''POST'', apiUrl c @ ''/token/card-data'',
               if JSON_stringify P requestBody = Some [] then None else JSON_stringify P requestBody)]"
proof -
  have calls: "map sent (new_calls st st1) =
             [(''POST'', apiUrl c @ ''/token/card-data'',
               if JSON_stringify P requestBody = Some [] then None else JSON_stringify P requestBody)]"
    using request_state[OF hop] by (auto simp: new_calls_def sent_request_config)
  show ?thesis
  proof (cases r1)
    case (Inl e)
    with hop calls show ?thesis by (simp add: getCardDetails_def)
  next
    case (Inr response)
    show ?thesis
    proof (cases "js_get P response ''token''")
      case (Inl e)
      with Inr hop calls show ?thesis by (simp add: getCardDetails_def)
    next
      case tk: (Inr tok)
      with Inr no_token have "\<not> truthy tok" by simp
      with Inr tk hop calls show ?thesis by (simp add: getCardDetails_def)
    qed
  qed
qed

theorem getCardDetails_token_required_witness:
  \<open>getCardDetails (mock_platform (\<lambda>q. Inr (JObj [(''links'', JArr [])])))
      (GateHubClient_new mock_consts (mock_env ''development'')) (JObj [(''cardId'', JStr ''c-1'')]) start
    = (Inl (Error ''Failed to obtain token for card data retrieval''),
       snd (request (mock_platform (\<lambda>q. Inr (JObj [(''links'', JArr [])])))
             (GateHubClient_new mock_consts (mock_env ''development'')) ''POST''
             ''https://api.sandbox.gatehub.net/token/card-data''
             (Some ''{"cardId":"c-1"}'')
             (Some \<lparr>managedUserUuid = None, token = JUndefined, cardAppId = Some ''card-app''\<rparr>) start)) \<and>
   map sent (new_calls start (snd (getCardDetails (mock_platform (\<lambda>q. Inr (JObj [(''links'', JArr [])])))
      (GateHubClient_new mock_consts (mock_env ''development'')) (JObj [(''cardId'', JStr ''c-1'')]) start)))
    = [(''POST'', ''https://api.sandbox.gatehub.net/token/card-data'', Some ''{"cardId":"c-1"}'')]\<close>
  using getCardDetails_token_required[
          where P = "mock_platform (\<lambda>q. Inr (JObj [(''links'', JArr [])]))"
            and c = "GateHubClient_new mock_consts (mock_env ''development'')"
            and requestBody = "JObj [(''cardId'', JStr ''c-1'')]" and st = start,
          OF mock_request]
  by (simp add: js_get_def Object_prototype_keys_def apiUrl_def mock_env_fields JSON_quote_def JSON_escape_def)

section \<open>Rates\<close>

lemma js_get_obj_Inr: "\<exists>v. js_get P (JObj fs) k = Inr v"
  by (simp add: js_get_def split: option.splits)

lemma js_get_truthy_Inr: "truthy v \<Longrightarrow> \<exists>r. js_get P v k = Inr r"
  by (cases v) (auto simp: js_get_def split: option.splits)

lemma getRates_loop_obj:
  "getRates_loop P (JObj fs) codes acc =
     Inr (\<lambda>code. if code \<in> set codes \<and> truthy (projr (js_get P (JObj fs) code))
                      \<and> \<not> typeof_string (projr (js_get P (JObj fs) code))
                   then Some (ToNumber P (projr (js_get P (projr (js_get P (JObj fs) code)) ''rate'')))
                   else acc code)"
proof (induction codes arbitrary: acc)
  case Nil
  show ?case by simp
next
  case (Cons code codes)
  obtain v where v: "js_get P (JObj fs) code = Inr v"
    using js_get_obj_Inr by blast
  show ?case
  proof (cases "truthy v \<and> \<not> typeof_string v")
    case True
    then obtain r where r: "js_get P v ''rate'' = Inr r"
      using js_get_truthy_Inr by blast
    from True v r show ?thesis
      by (auto simp: Cons.IH fun_eq_iff)
  next
    case False
    with v show ?thesis
      by (auto simp: Cons.IH fun_eq_iff)
  qed
qed

lemma getRates_loop_dom:
  "getRates_loop P response codes acc = Inr m \<Longrightarrow> dom m \<subseteq> dom acc \<union> set codes"
proof (induction codes arbitrary: acc)
  case Nil
  then show ?case by simp
next
  case (Cons code codes)
  from Cons.prems show ?case
    by (auto split: sum.splits if_splits dest!: Cons.IH)
qed

text \<open>
  C5. When the rates GET resolves with an object, and no supported asset code is one of
  the property names every object inherits, \<^verbatim>\<open>getRates\<close> returns a mapping whose keys are
  exactly the supported codes whose value in the response is truthy and not a string:
  a code that is not supported, is absent from the response or carries a string
  sentinel has no entry, and a supported code with a rate object is mapped to unary
  \<^verbatim>\<open>+\<close> of the object's \<^verbatim>\<open>rate\<close>.
\<close>

theorem getRates_flat_mapping:
  assumes hop: "request P c ''GET'' (getRates_url c base) None None st = (Inr (JObj fs), st1)"
    and codes: "set (SUPPORTED_ASSET_CODES K) \<inter> set Object_prototype_keys = {}"
  shows "\<exists>m. getRates P K c base st = (Inr m, st1) \<and>
           (\<forall>code.
              (code \<notin> set (SUPPORTED_ASSET_CODES K) \<longrightarrow> m code = None) \<and>
              (code \<in> set (SUPPORTED_ASSET_CODES K) \<longrightarrow>
                 (map_of fs code = None \<longrightarrow> m code = None) \<and>
                 (\<forall>v. map_of fs code = Some v \<longrightarrow> (m code \<noteq> None) = (truthy v \<and> \<not> typeof_string v)) \<and>
                 (\<forall>s. map_of fs code = Some (JStr s) \<longrightarrow> m code = None) \<and>
                 (\<forall>r. map_of fs code = Some (JObj r) \<longrightarrow>
                    m code = Some (ToNumber P (case map_of r ''rate'' of Some x \<Rightarrow> x | None \<Rightarrow> JUndefined)))))"
proof -
  let ?m = "\<lambda>code. if code \<in> set (SUPPORTED_ASSET_CODES K) \<and> truthy (projr (js_get P (JObj fs) code))
                      \<and> \<not> typeof_string (projr (js_get P (JObj fs) code))
                   then Some (ToNumber P (projr (js_get P (projr (js_get P (JObj fs) code)) ''rate'')))
                   else None"
  have run: "getRates P K c base st = (Inr ?m, st1)"
    using hop by (simp add: getRates_def getRates_loop_obj)
  have rate: "\<And>r. js_get P (JObj r) ''rate'' = Inr (case map_of r ''rate'' of Some x \<Rightarrow> x | None \<Rightarrow> JUndefined)"
    by (simp add: js_get_def Object_prototype_keys_def split: option.splits)
  show ?thesis
  proof (intro exI[of _ ?m] conjI allI impI)
    show "getRates P K c base st = (Inr ?m, st1)" by (rule run)
  next
    fix code assume "code \<notin> set (SUPPORTED_ASSET_CODES K)"
    then show "?m code = None" by simp
  next
    fix code assume "code \<in> set (SUPPORTED_ASSET_CODES K)" and "map_of fs code = None"
    with codes show "?m code = None" by (auto simp: js_get_def)
  next
    fix code v assume "code \<in> set (SUPPORTED_ASSET_CODES K)" and "map_of fs code = Some v"
    then show "(?m code \<noteq> None) = (truthy v \<and> \<not> typeof_string v)" by (simp add: js_get_def)
  next
    fix code s assume "map_of fs code = Some (JStr s)"
    then show "?m code = None" by (simp add: js_get_def typeof_string_def)
  next
    fix code r assume "code \<in> set (SUPPORTED_ASSET_CODES K)" and "map_of fs code = Some (JObj r)"
    then show "?m code = Some (ToNumber P (case map_of r ''rate'' of Some x \<Rightarrow> x | None \<Rightarrow> JUndefined))"
      using rate[of r] by (simp add: js_get_def typeof_string_def)
  qed
qed

text \<open>
  C10. Whatever the provider answers, every key of the mapping that \<^verbatim>\<open>getRates\<close>
  returns is one of \<^verbatim>\<open>SUPPORTED_ASSET_CODES\<close>.
\<close>

theorem getRates_keys_supported:
  "getRates P K c base st = (Inr m, st') \<Longrightarrow> dom m \<subseteq> set (SUPPORTED_ASSET_CODES K)"
  by (auto simp: getRates_def split: prod.splits sum.splits dest!: getRates_loop_dom)

lemma mock_rates_request:
  "request (mock_platform (\<lambda>q. Inr mock_rates)) c ''GET'' u None None start =
     (Inr (JObj [(''USD'', JObj [(''type'', JStr ''spot''), (''rate'', JStr ''1.25'')]),
                 (''EUR'', JStr ''not available''),
                 (''XYZ'', JObj [(''rate'', JStr ''2'')])]),
      snd (request (mock_platform (\<lambda>q. Inr mock_rates)) c ''GET'' u None None start))"
  using mock_request[of mock_rates c "''GET''" u None None start] by (simp add: mock_rates_def)

theorem getRates_flat_mapping_witness:
  "\<exists>m. fst (getRates (mock_platform (\<lambda>q. Inr mock_rates)) mock_consts
              (GateHubClient_new mock_consts (mock_env ''development'')) ''USD'' start) = Inr m \<and>
       m ''USD'' = Some (Fin (5 / 4)) \<and> m ''EUR'' = None \<and> m ''GBP'' = None \<and> m ''XYZ'' = None"
proof -
  have codes: "set (SUPPORTED_ASSET_CODES mock_consts) \<inter> set Object_prototype_keys = {}"
    by (simp add: mock_consts_def Object_prototype_keys_def)
  from getRates_flat_mapping[OF mock_rates_request codes]
  obtain m where run: "getRates (mock_platform (\<lambda>q. Inr mock_rates)) mock_consts
              (GateHubClient_new mock_consts (mock_env ''development'')) ''USD'' start
           = (Inr m, snd (request (mock_platform (\<lambda>q. Inr mock_rates))
                (GateHubClient_new mock_consts (mock_env ''development'')) ''GET''
                (getRates_url (GateHubClient_new mock_consts (mock_env ''development'')) ''USD'')
                None None start))"
    and m: "\<And>code.
              (code \<notin> set (SUPPORTED_ASSET_CODES mock_consts) \<longrightarrow> m code = None) \<and>
              (code \<in> set (SUPPORTED_ASSET_CODES mock_consts) \<longrightarrow>
                 (map_of [(''USD'', JObj [(''type'', JStr ''spot''), (''rate'', JStr ''1.25'')]),
                          (''EUR'', JStr ''not available''),
                          (''XYZ'', JObj [(''rate'', JStr ''2'')])] code = None \<longrightarrow> m code = None) \<and>
                 (\<forall>v. map_of [(''USD'', JObj [(''type'', JStr ''spot''), (''rate'', JStr ''1.25'')]),
                          (''EUR'', JStr ''not available''),
                          (''XYZ'', JObj [(''rate'', JStr ''2'')])] code = Some v
                    \<longrightarrow> (m code \<noteq> None) = (truthy v \<and> \<not> typeof_string v)) \<and>
                 (\<forall>s. map_of [(''USD'', JObj [(''type'', JStr ''spot''), (''rate'', JStr ''1.25'')]),
                          (''EUR'', JStr ''not available''),
                          (''XYZ'', JObj [(''rate'', JStr ''2'')])] code = Some (JStr s) \<longrightarrow> m code = None) \<and>
                 (\<forall>r. map_of [(''USD'', JObj [(''type'', JStr ''spot''), (''rate'', JStr ''1.25'')]),
                          (''EUR'', JStr ''not available''),
                          (''XYZ'', JObj [(''rate'', JStr ''2'')])] code = Some (JObj r) \<longrightarrow>
                    m code = Some (ToNumber (mock_platform (\<lambda>q. Inr mock_rates))
                                     (case map_of r ''rate'' of Some x \<Rightarrow> x | None \<Rightarrow> JUndefined))))"
    by blast
  from m[of "''USD''"] have "m ''USD'' = Some (Fin (5 / 4))"
    by (simp add: mock_consts_def mock_platform_def)
  moreover from m[of "''EUR''"] have "m ''EUR'' = None"
    by (simp add: mock_consts_def)
  moreover from m[of "''GBP''"] have "m ''GBP'' = None"
    by (simp add: mock_consts_def)
  moreover from m[of "''XYZ''"] have "m ''XYZ'' = None"
    by (simp add: mock_consts_def)
  ultimately show ?thesis using run by simp
qed

lemma mock_request_fst: "fst (request (mock_platform (\<lambda>q. Inr d)) c m u b ho st) = Inr d"
  using mock_request[of d c m u b ho st, THEN arg_cong, of fst] by simp

theorem getRates_keys_supported_witness:
  "\<exists>m. fst (getRates (mock_platform (\<lambda>q. Inr mock_rates)) mock_consts
              (GateHubClient_new mock_consts (mock_env ''development'')) ''USD'' start) = Inr m \<and>
       dom m \<subseteq> {''USD'', ''EUR'', ''GBP''} \<and> ''XYZ'' \<notin> dom m"
proof -
  let ?run = "getRates (mock_platform (\<lambda>q. Inr mock_rates)) mock_consts
              (GateHubClient_new mock_consts (mock_env ''development'')) ''USD'' start"
  have "\<exists>m. fst ?run = Inr m"
    by (simp add: getRates_def split_def mock_request_fst mock_rates_def getRates_loop_obj)
  then obtain m where m: "fst ?run = Inr m" by blast
  then have run: "?run = (Inr m, snd ?run)" by (simp add: prod_eq_iff)
  from getRates_keys_supported[OF run] have d: "dom m \<subseteq> {''USD'', ''EUR'', ''GBP''}"
    by (simp add: mock_consts_def)
  then have "''XYZ'' \<notin> dom m" by auto
  with d m show ?thesis by blast
qed

section \<open>Authentication of the calls\<close>

lemma getSignature_data:
  "getSignature P c t m u (Some (case body of None \<Rightarrow> [] | Some b \<Rightarrow> b)) =
   getSignature P c t m u (if truthy_str body then body else None)"
  by (auto simp: getSignature_def toSign_eq truthy_str_def split: option.splits)

lemma carries_signature_request_config: "carries_signature P c (request_config P c t m u body ho)"
  by (simp add: carries_signature_def request_config_def getRequestHeaders_def getSignature_data)

lemma carries_bearer_request_config:
  "carries_bearer (request_config P c t m u body ho) = (case ho of None \<Rightarrow> False | Some h \<Rightarrow> truthy (token h))"
  by (simp add: carries_bearer_def request_config_def getRequestHeaders_def split: option.splits)

lemma request_plain:
  "request P c m u body ho st = (r, st') \<Longrightarrow> (case ho of None \<Rightarrow> True | Some h \<Rightarrow> \<not> truthy (token h)) \<Longrightarrow>
     \<exists>q. calls st' = calls st @ [q] \<and> plain P c q"
  by (drule request_state)
     (auto simp: plain_def carries_signature_request_config carries_bearer_request_config split: option.splits)

lemma request_plain_list:
  "request P c m u body ho st = (r, st') \<Longrightarrow> (case ho of None \<Rightarrow> True | Some h \<Rightarrow> \<not> truthy (token h)) \<Longrightarrow>
     \<exists>qs. calls st' = calls st @ qs \<and> list_all (plain P c) qs"
  by (drule request_plain) auto

lemma snd_request_plain_list:
  "(case ho of None \<Rightarrow> True | Some h \<Rightarrow> \<not> truthy (token h)) \<Longrightarrow>
     \<exists>qs. calls (snd (request P c m u body ho st)) = calls st @ qs \<and> list_all (plain P c) qs"
  using request_plain_list[of P c m u body ho st "fst (request P c m u body ho st)" "snd (request P c m u body ho st)"]
  by simp

lemma getIframeAuthorizationToken_plain:
  "\<exists>qs. calls (snd (getIframeAuthorizationToken P c clientId scope uuid st)) = calls st @ qs
        \<and> list_all (plain P c) qs"
  using snd_request_plain_list[of "Some \<lparr>managedUserUuid = Some uuid, token = JUndefined, cardAppId = None\<rparr>"
          P c "''POST''" "apiUrl c @ ''/auth/v1/tokens?clientId='' @ clientId"
          "JSON_stringify P (JObj [(''scope'', JArr (map JStr scope))])" st]
  by (simp add: getIframeAuthorizationToken_def split_def Let_def split: sum.splits del: JSON_stringify.simps)

lemma getDepositUrl_plain:
  "\<exists>qs. calls (snd (getDepositUrl P K c uuid st)) = calls st @ qs \<and> list_all (plain P c) qs"
  using getIframeAuthorizationToken_plain[of P c "onOffRamp (clientIds c)" "DEFAULT_APP_SCOPE K" uuid st]
  by (simp add: getDepositUrl_def split_def Let_def split: sum.splits)

lemma getWithdrawalUrl_plain:
  "\<exists>qs. calls (snd (getWithdrawalUrl P K c uuid st)) = calls st @ qs \<and> list_all (plain P c) qs"
  using getIframeAuthorizationToken_plain[of P c "onOffRamp (clientIds c)" "DEFAULT_APP_SCOPE K" uuid st]
  by (simp add: getWithdrawalUrl_def split_def Let_def split: sum.splits)

lemma getExchangeUrl_plain:
  "\<exists>qs. calls (snd (getExchangeUrl P K c uuid st)) = calls st @ qs \<and> list_all (plain P c) qs"
  using getIframeAuthorizationToken_plain[of P c "exchange (clientIds c)" "DEFAULT_APP_SCOPE K" uuid st]
  by (simp add: getExchangeUrl_def split_def Let_def split: sum.splits)

lemma getOnboardingUrl_plain:
  "\<exists>qs. calls (snd (getOnboardingUrl P K c uuid st)) = calls st @ qs \<and> list_all (plain P c) qs"
  using getIframeAuthorizationToken_plain[of P c "onboarding (clientIds c)" "ONBOARDING_APP_SCOPE K" uuid st]
  by (simp add: getOnboardingUrl_def split_def Let_def split: sum.splits)

lemma getIframeUrl_plain:
  "\<exists>qs. calls (snd (getIframeUrl P K c type uuid st)) = calls st @ qs \<and> list_all (plain P c) qs"
proof (cases "iframeMappings type")
  case (Handler k)
  then show ?thesis
    using getDepositUrl_plain[of P K c uuid st] getWithdrawalUrl_plain[of P K c uuid st]
      getExchangeUrl_plain[of P K c uuid st] getOnboardingUrl_plain[of P K c uuid st]
    by (cases k) (simp_all add: getIframeUrl_def split_def Let_def)
next
  case (Inherited n)
  then show ?thesis by (simp add: getIframeUrl_def split: sum.splits)
next
  case Absent
  then show ?thesis by (simp add: getIframeUrl_def)
qed

lemma approveUserToGateway_plain:
  "\<exists>qs. calls (snd (approveUserToGateway P c uuid gw st)) = calls st @ qs \<and> list_all (plain P c) qs"
  by (simp add: approveUserToGateway_def snd_request_plain_list del: JSON_stringify.simps)

lemma connectUserToGateway_plain:
  "\<exists>qs. calls (snd (connectUserToGateway P c uuid gw st)) = calls st @ qs \<and> list_all (plain P c) qs"
proof -
  let ?r = "request P c ''POST'' (apiUrl c @ ''/id/v1/users/'' @ uuid @ ''/hubs/'' @ gw) None
             (Some \<lparr>managedUserUuid = Some uuid, token = JUndefined, cardAppId = None\<rparr>) st"
  obtain qs where qs: "calls (snd ?r) = calls st @ qs" "list_all (plain P c) qs"
    using snd_request_plain_list[of "Some \<lparr>managedUserUuid = Some uuid, token = JUndefined, cardAppId = None\<rparr>"
            P c "''POST''" "apiUrl c @ ''/id/v1/users/'' @ uuid @ ''/hubs/'' @ gw" None st]
    by auto
  obtain qs' where qs': "calls (snd (approveUserToGateway P c uuid gw (snd ?r))) = calls (snd ?r) @ qs'"
      "list_all (plain P c) qs'"
    using approveUserToGateway_plain[of P c uuid gw "snd ?r"] by auto
  have "list_all (plain P c) (qs @ qs')" using qs(2) qs'(2) by simp
  then show ?thesis
    using qs qs'
    by (cases "fst ?r")
       (auto simp: connectUserToGateway_def split_def Let_def split: sum.splits)
qed

lemma getRates_plain:
  "\<exists>qs. calls (snd (getRates P K c base st)) = calls st @ qs \<and> list_all (plain P c) qs"
  using snd_request_plain_list[of None P c "''GET''" "getRates_url c base" None st]
  by (simp add: getRates_def split_def Let_def split: sum.splits)

lemma getCardDetails_calls:
  "(\<exists>q1. new_calls st (snd (getCardDetails P c requestBody st)) = [q1] \<and> plain P c q1) \<or>
   (\<exists>q1 q2. new_calls st (snd (getCardDetails P c requestBody st)) = [q1, q2] \<and> plain P c q1 \<and>
       carries_signature P c q2 \<and> carries_bearer q2 \<and>
       sent q2 = (''GET'', apiUrl c @ ''/v1/proxy/client-device/card-data'', None))"
proof -
  let ?r = "request P c ''POST'' (apiUrl c @ ''/token/card-data'') (JSON_stringify P requestBody)
              (Some \<lparr>managedUserUuid = None, token = JUndefined,
                     cardAppId = Some (GATEHUB_CARD_APP_ID (env c))\<rparr>) st"
  obtain r1 st1 where hop: "?r = (r1, st1)" by (cases ?r)
  from request_plain[OF hop] obtain q1 where q1: "calls st1 = calls st @ [q1]" "plain P c q1"
    by auto
  show ?thesis
  proof (cases "\<exists>response tok. r1 = Inr response \<and> js_get P response ''token'' = Inr tok \<and> truthy tok")
    case False
    then have "snd (getCardDetails P c requestBody st) = st1"
      using hop by (auto simp: getCardDetails_def split: sum.splits)
    with q1 show ?thesis by (simp add: new_calls_def)
  next
    case True
    then obtain response tok where t: "r1 = Inr response" "js_get P response ''token'' = Inr tok" "truthy tok"
      by blast
    let ?g = "request P c ''GET'' (apiUrl c @ ''/v1/proxy/client-device/card-data'') None
                (Some \<lparr>managedUserUuid = None, token = tok, cardAppId = None\<rparr>) st1"
    have run: "getCardDetails P c requestBody st = ?g"
      using hop t by (simp add: getCardDetails_def)
    obtain r2 st2 where g: "?g = (r2, st2)" by (cases ?g)
    let ?q2 = "request_config P c (toString_nat (fst (Date_now P (world st1)))) ''GET''
                 (apiUrl c @ ''/v1/proxy/client-device/card-data'') None
                 (Some \<lparr>managedUserUuid = None, token = tok, cardAppId = None\<rparr>)"
    have c2: "calls st2 = calls st1 @ [?q2]" by (rule request_state[OF g])
    have "new_calls st (snd (getCardDetails P c requestBody st)) = [q1, ?q2]"
      using run g c2 q1(1) by (simp add: new_calls_def)
    moreover have "carries_signature P c ?q2" by (rule carries_signature_request_config)
    moreover have "carries_bearer ?q2" using t(3) by (simp add: carries_bearer_request_config)
    moreover have "sent ?q2 = (''GET'', apiUrl c @ ''/v1/proxy/client-device/card-data'', None)"
      by (simp add: sent_request_config)
    ultimately show ?thesis using q1(2) by blast
  qed
qed

lemma plain_run:
  "\<exists>qs. calls S = calls st @ qs \<and> list_all (plain P c) qs \<Longrightarrow>
     \<forall>q \<in> set (new_calls st S). carries_signature P c q \<and> \<not> carries_bearer q"
  by (auto simp: new_calls_def list_all_iff plain_def)

lemma not_card_details_signed:
  assumes "\<exists>qs. calls (state_after P K c a st) = calls st @ qs \<and> list_all (plain P c) qs"
    and "\<not> is_GetCardDetails a"
  shows "(\<forall>q \<in> set (new_calls st (state_after P K c a st)).
           carries_signature P c q \<and>
           (carries_bearer q \<longrightarrow>
              is_GetCardDetails a \<and>
              sent q = (''GET'', apiUrl c @ ''/v1/proxy/client-device/card-data'', None))) \<and>
         (is_GetCardDetails a \<and> length (new_calls st (state_after P K c a st)) = 2 \<longrightarrow>
            carries_bearer (last (new_calls st (state_after P K c a st))))"
  using plain_run[OF assms(1)] assms(2) by blast

text \<open>
  C4, as the code has it. Every call that any public method issues carries the HMAC
  signature header set. The only call that carries a bearer token is the card-data GET
  of \<^verbatim>\<open>getCardDetails\<close>, and it carries the token in addition to the signature headers,
  not instead of them: whenever \<^verbatim>\<open>getCardDetails\<close> makes its second call, that call has
  both.
\<close>

theorem every_call_signed:
  "(\<forall>q \<in> set (new_calls st (state_after P K c a st)).
      carries_signature P c q \<and>
      (carries_bearer q \<longrightarrow>
         is_GetCardDetails a \<and>
         sent q = (''GET'', apiUrl c @ ''/v1/proxy/client-device/card-data'', None))) \<and>
   (is_GetCardDetails a \<and> length (new_calls st (state_after P K c a st)) = 2 \<longrightarrow>
      carries_bearer (last (new_calls st (state_after P K c a st))))"
proof (cases a)
  case (GetCardDetails requestBody)
  then show ?thesis
    using getCardDetails_calls[of st P c requestBody]
    by (auto simp: is_GetCardDetails_def plain_def)
next
  case (GetWithdrawalUrl x)
  then show ?thesis using getWithdrawalUrl_plain[of P K c x st] by (intro not_card_details_signed) (simp_all add: is_GetCardDetails_def)
next
  case (GetDepositUrl x)
  then show ?thesis using getDepositUrl_plain[of P K c x st] by (intro not_card_details_signed) (simp_all add: is_GetCardDetails_def)
next
  case (GetOnboardingUrl x)
  then show ?thesis using getOnboardingUrl_plain[of P K c x st] by (intro not_card_details_signed) (simp_all add: is_GetCardDetails_def)
next
  case (GetExchangeUrl x)
  then show ?thesis using getExchangeUrl_plain[of P K c x st] by (intro not_card_details_signed) (simp_all add: is_GetCardDetails_def)
next
  case (GetIframeUrl x y)
  then show ?thesis using getIframeUrl_plain[of P K c x y st] by (intro not_card_details_signed) (simp_all add: is_GetCardDetails_def)
next
  case (GetIframeAuthorizationToken x y z)
  then show ?thesis using getIframeAuthorizationToken_plain[of P c x y z st]
    by (intro not_card_details_signed) (simp_all add: is_GetCardDetails_def)
next
  case (ConnectUserToGateway x y)
  then show ?thesis using connectUserToGateway_plain[of P c x y st] by (intro not_card_details_signed) (simp_all add: is_GetCardDetails_def)
next
  case (GetRates x)
  then show ?thesis using getRates_plain[of P K c x st] by (intro not_card_details_signed) (simp_all add: is_GetCardDetails_def)
qed (rule not_card_details_signed;
     simp add: is_GetCardDetails_def updateEmailForManagedUser_def createManagedUser_def getUserState_def createWallet_def
       getWallet_def getWalletBalance_def createTransaction_def getVaults_def
       fetchCardApplicationProducts_def createCustomer_def getCardsByCustomer_def
       snd_request_plain_list del: JSON_stringify.simps)+

lemma mock_world: "world (snd (request (mock_platform a) c m u b ho st)) = Suc (world st)"
  by (simp add: request_def mock_platform_def Let_def split: sum.splits)

lemma mock_Date_now: "fst (Date_now (mock_platform a) w) = w"
  by (simp add: mock_platform_def)

lemma toString_nat_next: "toString_nat 1700000000001 = ''1700000000001''"
  by (simp add: toString_nat_digit toString_nat_more digit_def)

lemma calls_start: "calls start = []"
  by (simp add: start_def)

lemma mock_card_calls:
  \<open>calls (snd (getCardDetails token_platform (GateHubClient_new mock_consts (mock_env ''development''))
            (JObj [(''cardId'', JStr ''c-1'')]) start)) =
     [request_config token_platform (GateHubClient_new mock_consts (mock_env ''development''))
        ''1700000000000'' ''POST'' ''https://api.sandbox.gatehub.net/token/card-data''
        (Some ''{"cardId":"c-1"}'')
        (Some \<lparr>managedUserUuid = None, token = JUndefined, cardAppId = Some ''card-app''\<rparr>),
      request_config token_platform (GateHubClient_new mock_consts (mock_env ''development''))
        ''1700000000001'' ''GET'' ''https://api.sandbox.gatehub.net/v1/proxy/client-device/card-data''
        None (Some \<lparr>managedUserUuid = None, token = JStr ''tok-1'', cardAppId = None\<rparr>)]\<close>
  by (simp add: getCardDetails_def token_platform_def split_def Let_def mock_request_fst js_get_def
        request_calls mock_world mock_Date_now apiUrl_def mock_env_fields start_def
        toString_nat_now toString_nat_next JSON_quote_def JSON_escape_def)

text \<open>
  C4 as stated fails: the card-data GET that carries \<^verbatim>\<open>Authorization: Bearer tok-1\<close>
  carries the application identifier, the timestamp and the signature as well.
\<close>

theorem card_data_hop_signed_and_bearer_counterexample:
  "map_of (headers (last (calls (snd (getCardDetails token_platform
       (GateHubClient_new mock_consts (mock_env ''development'')) (JObj [(''cardId'', JStr ''c-1'')]) start)))))
     ''Authorization'' = Some ''Bearer tok-1'' \<and>
   map_of (headers (last (calls (snd (getCardDetails token_platform
       (GateHubClient_new mock_consts (mock_env ''development'')) (JObj [(''cardId'', JStr ''c-1'')]) start)))))
     ''x-gatehub-app-id'' = Some ''access'' \<and>
   map_of (headers (last (calls (snd (getCardDetails token_platform
       (GateHubClient_new mock_consts (mock_env ''development'')) (JObj [(''cardId'', JStr ''c-1'')]) start)))))
     ''x-gatehub-timestamp'' = Some ''1700000000001'' \<and>
   map_of (headers (last (calls (snd (getCardDetails token_platform
       (GateHubClient_new mock_consts (mock_env ''development'')) (JObj [(''cardId'', JStr ''c-1'')]) start)))))
     ''x-gatehub-signature'' =
       Some ''secret:1700000000001|GET|https://api.sandbox.gatehub.net/v1/proxy/client-device/card-data''"
  by (simp add: mock_card_calls)
     (simp add: request_config_def getRequestHeaders_def getSignature_def toSign_eq truthy_str_def
        template_str_def token_platform_def mock_platform_def mock_env_fields)

theorem every_call_signed_witness:
  "carries_signature token_platform (GateHubClient_new mock_consts (mock_env ''development''))
     (last (new_calls start (state_after token_platform mock_consts
        (GateHubClient_new mock_consts (mock_env ''development''))
        (GetCardDetails (JObj [(''cardId'', JStr ''c-1'')])) start))) \<and>
   carries_bearer
     (last (new_calls start (state_after token_platform mock_consts
        (GateHubClient_new mock_consts (mock_env ''development''))
        (GetCardDetails (JObj [(''cardId'', JStr ''c-1'')])) start))) \<and>
   sent (last (new_calls start (state_after token_platform mock_consts
        (GateHubClient_new mock_consts (mock_env ''development''))
        (GetCardDetails (JObj [(''cardId'', JStr ''c-1'')])) start)))
     = (''GET'', ''https://api.sandbox.gatehub.net/v1/proxy/client-device/card-data'', None)"
  using every_call_signed[of start token_platform mock_consts
          "GateHubClient_new mock_consts (mock_env ''development'')"
          "GetCardDetails (JObj [(''cardId'', JStr ''c-1'')])"]
  by (simp add: new_calls_def mock_card_calls calls_start is_GetCardDetails_def apiUrl_def
        carries_signature_request_config carries_bearer_request_config sent_request_config)

end
